theory Spec2Isabelle
  imports Complex_Main "HOL-Library.Monad_Syntax"
begin

section \<open>Python values, exceptions and library functions\<close>

text \<open>
  The adapters work on decoded JSON (\<^verbatim>\<open>Dict[str, Any]\<close>), so the model works on a
  datatype of Python values. A \<open>char\<close> stands for one code point (Latin-1 range). A
  float is represented by a rational: an upstream float by its exact value, a float
  returned by \<^verbatim>\<open>round(x, 1)\<close> by the one-decimal number it was rounded to (the double
  Python returns is the one nearest to it). A dictionary is an association list with
  distinct keys; \<open>PyDate\<close> is a \<^verbatim>\<open>datetime.date\<close>.
\<close>

datatype pyval =
    PyNone
  | PyBool bool
  | PyInt int
  | PyFloat rat
  | PyStr string
  | PyList "pyval list"
  | PyDict "(string \<times> pyval) list"
  | PyDate int int int

datatype exn =
    AttributeError | TypeError | IndexError | KeyError | NameError | ValueError
  | ValidationError | JSONDecodeError
  | HTTPStatusError | RequestError
  | HTTPError | ConnectionError | Timeout
  | HTTPException int

text \<open>
  Functions of libraries the repository calls and does not define. They are parameters
  of the model: \<open>HttpUrl\<close> is pydantic's URL validation (the validated URL, or \<open>None\<close>
  when it is refused), \<open>float_of_str\<close> and \<open>int_of_str\<close> are pydantic's lax coercions
  of a string to a number, \<open>repr\<close> is \<^verbatim>\<open>str()\<close> of a float, list, dictionary or date,
  \<open>strptime\<close> is \<^verbatim>\<open>datetime.strptime(s, "%Y-%m-%d").date()\<close>, \<open>fromisoformat\<close> is
  \<^verbatim>\<open>datetime.fromisoformat(s).date()\<close> (both \<open>None\<close> for ValueError) and \<open>quote\<close> is
  \<^verbatim>\<open>urllib.parse.quote\<close>.
\<close>

record pylib =
  HttpUrl :: "string \<Rightarrow> string option"
  float_of_str :: "string \<Rightarrow> rat option"
  int_of_str :: "string \<Rightarrow> int option"
  repr :: "pyval \<Rightarrow> string"
  strptime :: "string \<Rightarrow> (int \<times> int \<times> int) option"
  fromisoformat :: "string \<Rightarrow> (int \<times> int \<times> int) option"
  quote :: "string \<Rightarrow> string"

definition bnd :: "exn + 'a \<Rightarrow> ('a \<Rightarrow> exn + 'b) \<Rightarrow> exn + 'b" where
  "bnd m f = (case m of Inl e \<Rightarrow> Inl e | Inr v \<Rightarrow> f v)"

subsection \<open>Truth value, attribute access, indexing\<close>

fun truthy :: "pyval \<Rightarrow> bool" where
  "truthy PyNone = False"
| "truthy (PyBool b) = b"
| "truthy (PyInt i) = (i \<noteq> 0)"
| "truthy (PyFloat q) = (q \<noteq> 0)"
| "truthy (PyStr s) = (s \<noteq> [])"
| "truthy (PyList xs) = (xs \<noteq> [])"
| "truthy (PyDict d) = (d \<noteq> [])"
| "truthy (PyDate y m d) = True"

fun isinstance_dict :: "pyval \<Rightarrow> bool" where
  "isinstance_dict (PyDict d) = True"
| "isinstance_dict v = False"

fun isinstance_list :: "pyval \<Rightarrow> bool" where
  "isinstance_list (PyList xs) = True"
| "isinstance_list v = False"

text \<open>\<^verbatim>\<open>x.get(key, default)\<close>: only a dictionary has the method.\<close>

fun py_get :: "pyval \<Rightarrow> string \<Rightarrow> pyval \<Rightarrow> exn + pyval" where
  "py_get (PyDict d) k dflt = Inr (case map_of d k of Some v \<Rightarrow> v | None \<Rightarrow> dflt)"
| "py_get v k dflt = Inl AttributeError"

text \<open>\<^verbatim>\<open>x[0]\<close>: the first element of a list, the first character of a string; the
  key \<open>0\<close> is in no dictionary decoded from JSON.\<close>

fun py_index0 :: "pyval \<Rightarrow> exn + pyval" where
  "py_index0 (PyList []) = Inl IndexError"
| "py_index0 (PyList (x # xs)) = Inr x"
| "py_index0 (PyStr []) = Inl IndexError"
| "py_index0 (PyStr (c # s)) = Inr (PyStr [c])"
| "py_index0 (PyDict d) = Inl KeyError"
| "py_index0 v = Inl TypeError"

text \<open>Iteration (\<^verbatim>\<open>for x in v\<close>): over the elements of a list, the characters of a
  string, the keys of a dictionary.\<close>

fun py_iter :: "pyval \<Rightarrow> exn + pyval list" where
  "py_iter (PyList xs) = Inr xs"
| "py_iter (PyStr s) = Inr (map (\<lambda>c. PyStr [c]) s)"
| "py_iter (PyDict d) = Inr (map (\<lambda>kv. PyStr (fst kv)) d)"
| "py_iter v = Inl TypeError"

subsection \<open>Strings\<close>

definition isspace :: "char \<Rightarrow> bool" where
  "isspace c = (let n = of_char c :: nat in (9 \<le> n \<and> n \<le> 13) \<or> (28 \<le> n \<and> n \<le> 32) \<or> n = 133 \<or> n = 160)"

definition strip :: "string \<Rightarrow> string" where
  "strip s = rev (dropWhile isspace (rev (dropWhile isspace s)))"

definition lower_char :: "char \<Rightarrow> char" where
  "lower_char c = (let n = of_char c :: nat in
     if (65 \<le> n \<and> n \<le> 90) \<or> (192 \<le> n \<and> n \<le> 222 \<and> n \<noteq> 215) then char_of (n + 32) else c)"

definition lower :: "string \<Rightarrow> string" where
  "lower s = map lower_char s"

definition replace_underscores :: "string \<Rightarrow> string" where
  "replace_underscores s = map (\<lambda>c. if c = CHR ''_'' then CHR '' '' else c) s"

fun py_strip :: "pyval \<Rightarrow> exn + pyval" where
  "py_strip (PyStr s) = Inr (PyStr (strip s))"
| "py_strip v = Inl AttributeError"

fun py_lower :: "pyval \<Rightarrow> exn + pyval" where
  "py_lower (PyStr s) = Inr (PyStr (lower s))"
| "py_lower v = Inl AttributeError"

fun py_replace_underscores :: "pyval \<Rightarrow> exn + pyval" where
  "py_replace_underscores (PyStr s) = Inr (PyStr (replace_underscores s))"
| "py_replace_underscores v = Inl AttributeError"

text \<open>Decimal digits of a number, as \<^verbatim>\<open>str(n)\<close> writes them.\<close>

fun str_nat :: "nat \<Rightarrow> string" where
  "str_nat n = (if n < 10 then [char_of (48 + n)] else str_nat (n div 10) @ [char_of (48 + n mod 10)])"

declare str_nat.simps [simp del]

definition str_int :: "int \<Rightarrow> string" where
  "str_int i = (if i < 0 then CHR ''-'' # str_nat (nat (- i)) else str_nat (nat i))"

text \<open>What an f-string writes for a value: \<^verbatim>\<open>str(v)\<close>.\<close>

fun py_str :: "pylib \<Rightarrow> pyval \<Rightarrow> string" where
  "py_str L (PyStr s) = s"
| "py_str L (PyInt i) = str_int i"
| "py_str L (PyBool b) = (if b then ''True'' else ''False'')"
| "py_str L PyNone = ''None''"
| "py_str L v = repr L v"

subsection \<open>Numbers\<close>

text \<open>\<^verbatim>\<open>round(x, 1)\<close> of a float: the exact value rounded to one decimal, a tie to the
  even digit.\<close>

definition round1 :: "rat \<Rightarrow> rat" where
  "round1 q = (let n = \<lfloor>q * 10\<rfloor>; f = q * 10 - of_int n in
     if f < 1 / 2 then of_int n / 10
     else if 1 / 2 < f then of_int (n + 1) / 10
     else if even n then of_int n / 10 else of_int (n + 1) / 10)"

fun py_round1 :: "pyval \<Rightarrow> exn + pyval" where
  "py_round1 (PyFloat q) = Inr (PyFloat (round1 q))"
| "py_round1 (PyInt i) = Inr (PyInt i)"
| "py_round1 (PyBool b) = Inr (PyInt (if b then 1 else 0))"
| "py_round1 v = Inl TypeError"

section \<open>The normalized course record (\<^verbatim>\<open>app/schemas/course.py\<close>)\<close>

record CourseSchema =
  title :: string
  url :: string
  image_url :: "string option"
  duration :: "string option"
  provider :: "string option"
  provider_img :: "string option"
  difficulty :: "string option"
  avg_rating :: "rat option"
  count_rating :: "int option"
  skills :: "string list option"

text \<open>
  Validation of one field (pydantic 2, lax mode), \<open>None\<close> when the value is refused.
  An \<^verbatim>\<open>Optional\<close> field also takes \<^verbatim>\<open>None\<close>.
\<close>

fun v_str :: "pyval \<Rightarrow> string option" where
  "v_str (PyStr s) = Some s"
| "v_str v = None"

fun v_url :: "pylib \<Rightarrow> pyval \<Rightarrow> string option" where
  "v_url L (PyStr s) = HttpUrl L s"
| "v_url L v = None"

text \<open>
  A float field converts an integer to a double, and refuses one that has no double: one
  whose magnitude rounds up to \<open>2 ^ 1024\<close>. The record then holds the integer, which
  stands for the double nearest to it. An integer field takes every integer, and a float
  only when it is whole and lies strictly between \<open>- 2 ^ 63\<close> and \<open>2 ^ 63\<close>.
\<close>

definition double_limit :: int where
  "double_limit = 2 ^ 1024 - 2 ^ 970"

definition int64_limit :: rat where
  "int64_limit = 2 ^ 63"

fun v_float :: "pylib \<Rightarrow> pyval \<Rightarrow> rat option" where
  "v_float L (PyFloat q) = Some q"
| "v_float L (PyInt i) = (if \<bar>i\<bar> < double_limit then Some (of_int i) else None)"
| "v_float L (PyBool b) = Some (if b then 1 else 0)"
| "v_float L (PyStr s) = float_of_str L s"
| "v_float L v = None"

fun v_int :: "pylib \<Rightarrow> pyval \<Rightarrow> int option" where
  "v_int L (PyInt i) = Some i"
| "v_int L (PyBool b) = Some (if b then 1 else 0)"
| "v_int L (PyFloat q) =
     (if of_int \<lfloor>q\<rfloor> = q \<and> - int64_limit < q \<and> q < int64_limit then Some \<lfloor>q\<rfloor> else None)"
| "v_int L (PyStr s) = int_of_str L s"
| "v_int L v = None"

fun v_str_list :: "pyval \<Rightarrow> string list option" where
  "v_str_list (PyList xs) = (if list_all (\<lambda>x. v_str x \<noteq> None) xs then Some (map (\<lambda>x. the (v_str x)) xs) else None)"
| "v_str_list v = None"

fun v_optional :: "(pyval \<Rightarrow> 'a option) \<Rightarrow> pyval \<Rightarrow> 'a option option" where
  "v_optional f PyNone = Some None"
| "v_optional f v = map_option Some (f v)"

text \<open>A field with no default must be among the keyword arguments; one with the
  default \<^verbatim>\<open>None\<close> may be left out.\<close>

definition required :: "(string \<times> pyval) list \<Rightarrow> string \<Rightarrow> (pyval \<Rightarrow> 'a option) \<Rightarrow> 'a option" where
  "required kw k f = (case map_of kw k of None \<Rightarrow> None | Some v \<Rightarrow> f v)"

definition defaulted :: "(string \<times> pyval) list \<Rightarrow> string \<Rightarrow> (pyval \<Rightarrow> 'a option) \<Rightarrow> 'a option option" where
  "defaulted kw k f = (case map_of kw k of None \<Rightarrow> Some None | Some v \<Rightarrow> v_optional f v)"

text \<open>
  \<^verbatim>\<open>CourseSchema(**kw)\<close>. The class declares the ten fields of the record and no other;
  a keyword argument that names no field (\<^verbatim>\<open>course_date\<close>) is ignored, as pydantic does
  by default.
\<close>

definition validate :: "pylib \<Rightarrow> (string \<times> pyval) list \<Rightarrow> CourseSchema option" where
  "validate L kw = do {
     t \<leftarrow> required kw ''title'' v_str;
     u \<leftarrow> required kw ''url'' (v_url L);
     i \<leftarrow> required kw ''image_url'' (v_optional (v_url L));
     d \<leftarrow> defaulted kw ''duration'' v_str;
     p \<leftarrow> defaulted kw ''provider'' v_str;
     pimg \<leftarrow> defaulted kw ''provider_img'' (v_url L);
     lvl \<leftarrow> defaulted kw ''difficulty'' v_str;
     avg \<leftarrow> defaulted kw ''avg_rating'' (v_float L);
     cnt \<leftarrow> defaulted kw ''count_rating'' (v_int L);
     sk \<leftarrow> defaulted kw ''skills'' v_str_list;
     Some \<lparr>title = t, url = u, image_url = i, duration = d, provider = p, provider_img = pimg,
            difficulty = lvl, avg_rating = avg, count_rating = cnt, skills = sk\<rparr>
   }"

definition CourseSchema_new :: "pylib \<Rightarrow> (string \<times> pyval) list \<Rightarrow> exn + CourseSchema" where
  "CourseSchema_new L kw = (case validate L kw of None \<Rightarrow> Inl ValidationError | Some c \<Rightarrow> Inr c)"

section \<open>Coursera (\<^verbatim>\<open>app/services/coursera.py\<close>)\<close>

definition coursera_elements :: "pyval \<Rightarrow> exn + pyval" where
  "coursera_elements data =
     bnd (py_get data ''data'' (PyDict [])) (\<lambda>d.
     bnd (py_get d ''SearchResult'' (PyDict [])) (\<lambda>sr.
     bnd (py_get sr ''search'' (PyList [PyDict []])) (\<lambda>s.
     bnd (py_index0 s) (\<lambda>s0.
     py_get s0 ''elements'' (PyList [])))))"

text \<open>The body of the loop of \<^verbatim>\<open>parse_coursera_response\<close> for one dictionary \<open>item\<close>:
  the assignments in the source's order, then the keyword arguments in the order they
  are evaluated, then the constructor.\<close>

definition coursera_item :: "pylib \<Rightarrow> pyval \<Rightarrow> exn + CourseSchema" where
  "coursera_item L item =
     bnd (py_get item ''url'' PyNone) (\<lambda>url_path.
     let full_url = (if truthy url_path then PyStr (''https://www.coursera.org'' @ py_str L url_path) else PyNone) in
     bnd (py_get item ''productDifficultyLevel'' PyNone) (\<lambda>difficulty0.
     bnd (if truthy difficulty0 then py_lower difficulty0 else Inr PyNone) (\<lambda>difficulty1.
     bnd (py_get item ''productDuration'' PyNone) (\<lambda>duration0.
     bnd (if truthy duration0 then bnd (py_lower duration0) py_replace_underscores else Inr duration0) (\<lambda>duration1.
     bnd (py_get item ''avgProductRating'' PyNone) (\<lambda>avg_rating0.
     bnd (if avg_rating0 \<noteq> PyNone then py_round1 avg_rating0 else Inr avg_rating0) (\<lambda>avg_rating1.
     bnd (py_get item ''name'' PyNone) (\<lambda>name.
     bnd (py_get item ''imageUrl'' PyNone) (\<lambda>imageUrl.
     bnd (bnd (py_get item ''partners'' (PyList [PyNone])) py_index0) (\<lambda>partner.
     bnd (bnd (py_get item ''partnerLogos'' (PyList [PyNone])) py_index0) (\<lambda>partnerLogo.
     bnd (py_get item ''numProductRatings'' PyNone) (\<lambda>numProductRatings.
     bnd (py_get item ''skills'' PyNone) (\<lambda>skills0.
     CourseSchema_new L
       [(''title'', name), (''url'', full_url), (''image_url'', imageUrl), (''duration'', duration1),
        (''provider'', partner), (''provider_img'', partnerLogo), (''difficulty'', difficulty1),
        (''avg_rating'', avg_rating1), (''count_rating'', numProductRatings),
        (''skills'', skills0)])))))))))))))"

fun coursera_loop :: "pylib \<Rightarrow> pyval list \<Rightarrow> CourseSchema list \<Rightarrow> exn + CourseSchema list" where
  "coursera_loop L [] results = Inr results"
| "coursera_loop L (item # rest) results =
     (if \<not> isinstance_dict item then coursera_loop L rest results
      else bnd (coursera_item L item) (\<lambda>course. coursera_loop L rest (results @ [course])))"

definition parse_coursera_response :: "pylib \<Rightarrow> pyval \<Rightarrow> exn + CourseSchema list" where
  "parse_coursera_response L data =
     (case coursera_elements data of
        Inl e \<Rightarrow> if e = KeyError \<or> e = IndexError \<or> e = TypeError then Inr [] else Inl e
      | Inr elements \<Rightarrow>
          (case elements of PyList items \<Rightarrow> coursera_loop L items [] | _ \<Rightarrow> Inr []))"

section \<open>Udemy (\<^verbatim>\<open>app/services/udemy.py\<close>)\<close>

text \<open>\<^verbatim>\<open>divmod(x, b)\<close> and \<^verbatim>\<open>x // b\<close> for a positive integer \<open>b\<close>; a boolean counts as 0
  or 1, a float is divided exactly.\<close>

fun py_divmod :: "pyval \<Rightarrow> int \<Rightarrow> exn + pyval \<times> pyval" where
  "py_divmod (PyInt a) b = Inr (PyInt (a div b), PyInt (a mod b))"
| "py_divmod (PyBool t) b = Inr (PyInt ((if t then 1 else 0) div b), PyInt ((if t then 1 else 0) mod b))"
| "py_divmod (PyFloat q) b = Inr (PyFloat (of_int \<lfloor>q / of_int b\<rfloor>), PyFloat (q - of_int b * of_int \<lfloor>q / of_int b\<rfloor>))"
| "py_divmod v b = Inl TypeError"

fun py_floordiv :: "pyval \<Rightarrow> int \<Rightarrow> exn + pyval" where
  "py_floordiv (PyInt a) b = Inr (PyInt (a div b))"
| "py_floordiv (PyBool t) b = Inr (PyInt ((if t then 1 else 0) div b))"
| "py_floordiv (PyFloat q) b = Inr (PyFloat (of_int \<lfloor>q / of_int b\<rfloor>))"
| "py_floordiv v b = Inl TypeError"

fun py_strptime :: "pylib \<Rightarrow> pyval \<Rightarrow> exn + pyval" where
  "py_strptime L (PyStr s) = (case strptime L s of None \<Rightarrow> Inl ValueError | Some (y, m, d) \<Rightarrow> Inr (PyDate y m d))"
| "py_strptime L v = Inl TypeError"

text \<open>Reading a local variable: one that no assignment has bound yet raises
  UnboundLocalError, a NameError.\<close>

fun load :: "pyval option \<Rightarrow> exn + pyval" where
  "load None = Inl NameError"
| "load (Some v) = Inr v"

text \<open>The locals of \<^verbatim>\<open>parse_udemy_response\<close> that an iteration of its loop can leave
  unassigned: they keep the value of an earlier iteration, and start unbound.\<close>

record udemy_locals =
  l_avg_rating :: "pyval option"
  l_count_rating :: "pyval option"

definition udemy_duration :: "pylib \<Rightarrow> pyval \<Rightarrow> exn + pyval" where
  "udemy_duration L duration0 =
     (if truthy duration0 then
        bnd (py_divmod duration0 3600) (\<lambda>hr.
        bnd (py_floordiv (snd hr) 60) (\<lambda>minutes.
        Inr (PyStr (py_str L (fst hr) @ ''h '' @ py_str L minutes @ ''m''))))
      else Inr duration0)"

definition udemy_rating :: "udemy_locals \<Rightarrow> pyval \<Rightarrow> exn + udemy_locals" where
  "udemy_rating st rating =
     (if truthy rating then
        bnd (py_get rating ''average'' PyNone) (\<lambda>average.
        bnd (py_round1 average) (\<lambda>avg.
        bnd (py_get rating ''count'' PyNone) (\<lambda>cnt.
        Inr (st\<lparr>l_avg_rating := Some avg, l_count_rating := Some cnt\<rparr>))))
      else Inr st)"

text \<open>The locals of an iteration of the loop once its assignments are done, before the
  call of the constructor.\<close>

record udemy_frame =
  u_duration :: pyval
  u_provider :: pyval
  u_difficulty :: pyval
  u_locals :: udemy_locals
  u_course_date :: pyval

definition udemy_assign :: "pylib \<Rightarrow> udemy_locals \<Rightarrow> pyval \<Rightarrow> exn + udemy_frame" where
  "udemy_assign L st course_data =
     bnd (py_get course_data ''durationInSeconds'' PyNone) (\<lambda>duration0.
     bnd (udemy_duration L duration0) (\<lambda>duration1.
     bnd (py_get course_data ''instructors'' PyNone) (\<lambda>provider0.
     bnd (if truthy provider0 then bnd (py_index0 provider0) (\<lambda>p. py_get p ''name'' PyNone)
          else Inr provider0) (\<lambda>provider1.
     bnd (py_get course_data ''level'' PyNone) (\<lambda>difficulty0.
     bnd (if truthy difficulty0 then bnd (py_lower difficulty0) py_replace_underscores
          else Inr difficulty0) (\<lambda>difficulty1.
     bnd (py_get course_data ''rating'' PyNone) (\<lambda>rating.
     bnd (udemy_rating st rating) (\<lambda>st'.
     bnd (py_get course_data ''updatedOn'' PyNone) (\<lambda>course_date0.
     bnd (if truthy course_date0 then py_strptime L course_date0 else Inr course_date0) (\<lambda>course_date1.
     Inr \<lparr>u_duration = duration1, u_provider = provider1, u_difficulty = difficulty1,
          u_locals = st', u_course_date = course_date1\<rparr>))))))))))"

text \<open>The call \<^verbatim>\<open>CourseSchema(...)\<close>: the keyword arguments are evaluated in the order
  they are written, \<^verbatim>\<open>avg_rating\<close> and \<^verbatim>\<open>count_rating\<close> by reading the locals.\<close>

definition udemy_build :: "pylib \<Rightarrow> pyval \<Rightarrow> udemy_frame \<Rightarrow> exn + CourseSchema" where
  "udemy_build L course_data fr =
     bnd (bnd (py_get course_data ''title'' PyNone) py_strip) (\<lambda>title0.
     bnd (py_get course_data ''urlCourseLanding'' PyNone) (\<lambda>url0.
     bnd (bnd (py_get course_data ''images'' PyNone) (\<lambda>images. py_get images ''px240x135'' PyNone)) (\<lambda>image0.
     bnd (load (l_avg_rating (u_locals fr))) (\<lambda>avg_rating0.
     bnd (load (l_count_rating (u_locals fr))) (\<lambda>count_rating0.
     bnd (py_get course_data ''learningOutcomes'' PyNone) (\<lambda>skills0.
     CourseSchema_new L
       [(''title'', title0), (''url'', url0), (''image_url'', image0), (''duration'', u_duration fr),
        (''provider'', u_provider fr), (''provider_img'', PyNone), (''difficulty'', u_difficulty fr),
        (''avg_rating'', avg_rating0), (''count_rating'', count_rating0), (''skills'', skills0),
        (''course_date'', u_course_date fr)]))))))"

definition udemy_item :: "pylib \<Rightarrow> udemy_locals \<Rightarrow> pyval \<Rightarrow> exn + udemy_locals \<times> CourseSchema" where
  "udemy_item L st item =
     bnd (py_get item ''course'' (PyDict [])) (\<lambda>course_data.
     bnd (udemy_assign L st course_data) (\<lambda>fr.
     bnd (udemy_build L course_data fr) (\<lambda>course.
     Inr (u_locals fr, course))))"

fun udemy_loop :: "pylib \<Rightarrow> udemy_locals \<Rightarrow> pyval list \<Rightarrow> CourseSchema list \<Rightarrow> exn + CourseSchema list" where
  "udemy_loop L st [] results = Inr results"
| "udemy_loop L st (item # rest) results =
     (if \<not> isinstance_dict item then udemy_loop L st rest results
      else bnd (udemy_item L st item) (\<lambda>r. udemy_loop L (fst r) rest (results @ [snd r])))"

definition udemy_elements :: "pyval \<Rightarrow> exn + pyval" where
  "udemy_elements data =
     bnd (py_get data ''data'' (PyDict [])) (\<lambda>d.
     bnd (py_get d ''courseSearch'' (PyDict [])) (\<lambda>cs.
     py_get cs ''results'' (PyList [])))"

definition unbound :: udemy_locals where
  "unbound = \<lparr>l_avg_rating = None, l_count_rating = None\<rparr>"

definition parse_udemy_response :: "pylib \<Rightarrow> pyval \<Rightarrow> exn + CourseSchema list" where
  "parse_udemy_response L data =
     (case udemy_elements data of
        Inl e \<Rightarrow> if e = KeyError \<or> e = IndexError \<or> e = TypeError then Inr [] else Inl e
      | Inr elements \<Rightarrow>
          (case elements of PyList items \<Rightarrow> udemy_loop L unbound items [] | _ \<Rightarrow> Inr []))"

section \<open>edX (\<^verbatim>\<open>app/services/edx.py\<close>): parsing\<close>

fun map_exn :: "('a \<Rightarrow> exn + 'b) \<Rightarrow> 'a list \<Rightarrow> exn + 'b list" where
  "map_exn f [] = Inr []"
| "map_exn f (x # xs) = bnd (f x) (\<lambda>y. bnd (map_exn f xs) (\<lambda>ys. Inr (y # ys)))"

text \<open>The first part of an iteration of the loop of \<^verbatim>\<open>parse_edx_response\<close>: it binds
  \<open>provider\<close>, and \<open>provider_img\<close> only when \<open>owners\<close> is not empty. The local
  \<open>provider_img\<close> is the state the loop passes on.\<close>

definition edx_owner :: "pyval option \<Rightarrow> pyval \<Rightarrow> exn + pyval \<times> pyval option" where
  "edx_owner st item =
     bnd (py_get item ''owners'' (PyList [])) (\<lambda>owner.
     if truthy owner then
       bnd (py_index0 owner) (\<lambda>owner0.
       bnd (py_get owner0 ''name'' PyNone) (\<lambda>name.
       bnd (py_get owner0 ''logoImageUrl'' PyNone) (\<lambda>logo.
       Inr (name, Some logo))))
     else Inr (PyNone, st))"

definition edx_course :: "pylib \<Rightarrow> pyval \<Rightarrow> pyval option \<Rightarrow> pyval \<Rightarrow> exn + CourseSchema" where
  "edx_course L provider0 st item =
     bnd (py_get item ''weeks_to_complete'' PyNone) (\<lambda>duration0.
     let duration1 = (if truthy duration0 then PyStr (py_str L duration0 @ '' weeks'') else duration0) in
     bnd (py_get item ''skills'' PyNone) (\<lambda>skills0.
     bnd (if truthy skills0 then
            bnd (py_iter skills0) (\<lambda>xs.
            bnd (map_exn (\<lambda>x. py_get x ''skill'' PyNone) xs) (\<lambda>ys. Inr (PyList ys)))
          else Inr skills0) (\<lambda>skills1.
     bnd (bnd (py_get item ''title'' PyNone) py_strip) (\<lambda>title0.
     bnd (py_get item ''marketing_url'' PyNone) (\<lambda>url0.
     bnd (py_get item ''card_image_url'' PyNone) (\<lambda>image0.
     bnd (load st) (\<lambda>provider_img0.
     bnd (bnd (py_get item ''level'' (PyList [PyNone])) py_index0) (\<lambda>level.
     CourseSchema_new L
       [(''title'', title0), (''url'', url0), (''image_url'', image0), (''duration'', duration1),
        (''provider'', provider0), (''provider_img'', provider_img0), (''difficulty'', level),
        (''avg_rating'', PyNone), (''count_rating'', PyNone), (''skills'', skills1)]))))))))"

definition edx_item :: "pylib \<Rightarrow> pyval option \<Rightarrow> pyval \<Rightarrow> pyval option \<times> (exn + CourseSchema)" where
  "edx_item L st item =
     (case edx_owner st item of
        Inl e \<Rightarrow> (st, Inl e)
      | Inr r \<Rightarrow> (snd r, edx_course L (fst r) (snd r) item))"

text \<open>The loop: an exception of an iteration is caught, the item is skipped, and the
  locals assigned before the exception stay assigned.\<close>

fun edx_loop :: "pylib \<Rightarrow> pyval option \<Rightarrow> pyval list \<Rightarrow> CourseSchema list \<Rightarrow> CourseSchema list" where
  "edx_loop L st [] courses = courses"
| "edx_loop L st (item # rest) courses =
     (case edx_item L st item of
        (st', Inl e) \<Rightarrow> edx_loop L st' rest courses
      | (st', Inr course) \<Rightarrow> edx_loop L st' rest (courses @ [course]))"

definition edx_hits :: "pyval \<Rightarrow> exn + pyval list" where
  "edx_hits data =
     bnd (py_get data ''results'' (PyList [])) (\<lambda>results.
     if \<not> truthy results then Inr []
     else bnd (py_index0 results) (\<lambda>r0.
          bnd (py_get r0 ''hits'' (PyList [])) (\<lambda>hits.
          if \<not> truthy hits then Inr [] else py_iter hits)))"

definition parse_edx_response :: "pylib \<Rightarrow> pyval \<Rightarrow> CourseSchema list" where
  "parse_edx_response L data =
     (if \<not> truthy data then []
      else case edx_hits data of Inl e \<Rightarrow> [] | Inr items \<Rightarrow> edx_loop L None items [])"

section \<open>YouTube (\<^verbatim>\<open>app/services/youtube.py\<close>): parsing\<close>

definition isdigit :: "char \<Rightarrow> bool" where
  "isdigit c = (let n = of_char c :: nat in 48 \<le> n \<and> n \<le> 57)"

definition int_digits :: "string \<Rightarrow> nat" where
  "int_digits ds = foldl (\<lambda>acc c. 10 * acc + (of_char c - 48)) 0 ds"

text \<open>
  One optional group \<^verbatim>\<open>(?:(\d+)X)?\<close> of the pattern, matched at the start of \<open>s\<close>: the
  digits it captures and the rest of the string, or no capture and \<open>s\<close> itself. The
  group takes the longest run of digits (a shorter run is followed by a digit, never by
  the letter).
\<close>

definition re_group :: "char \<Rightarrow> string \<Rightarrow> string option \<times> string" where
  "re_group c s = (let ds = takeWhile isdigit s; rest = dropWhile isdigit s in
     if ds \<noteq> [] \<and> rest \<noteq> [] \<and> hd rest = c then (Some ds, tl rest) else (None, s))"

text \<open>\<^verbatim>\<open>int(g) if g else 0\<close> for a group; \<^verbatim>\<open>int\<close> refuses more than 4300 digits.\<close>

fun group_int :: "string option \<Rightarrow> exn + nat" where
  "group_int None = Inr 0"
| "group_int (Some ds) = (if 4300 < length ds then Inl ValueError else Inr (int_digits ds))"

definition format_duration :: "nat \<Rightarrow> nat \<Rightarrow> nat \<Rightarrow> string" where
  "format_duration hours minutes seconds =
     (if hours > 0 then str_nat hours @ ''h '' @ str_nat minutes @ ''m''
      else if minutes > 0 then str_nat minutes @ ''m''
      else str_nat seconds @ ''s'')"

definition convert_youtube_duration :: "pyval \<Rightarrow> exn + pyval" where
  "convert_youtube_duration iso_duration =
     (if \<not> truthy iso_duration then Inr PyNone
      else case iso_duration of
        PyStr s \<Rightarrow>
          if take 2 s \<noteq> ''PT'' then Inr PyNone
          else (let g1 = re_group CHR ''H'' (drop 2 s);
                    g2 = re_group CHR ''M'' (snd g1);
                    g3 = re_group CHR ''S'' (snd g2) in
                bnd (group_int (fst g1)) (\<lambda>hours.
                bnd (group_int (fst g2)) (\<lambda>minutes.
                bnd (group_int (fst g3)) (\<lambda>seconds.
                Inr (PyStr (format_duration hours minutes seconds))))))
      | _ \<Rightarrow> Inl AttributeError)"

fun py_fromisoformat :: "pylib \<Rightarrow> pyval \<Rightarrow> exn + pyval" where
  "py_fromisoformat L (PyStr s) = (case fromisoformat L s of None \<Rightarrow> Inl ValueError | Some (y, m, d) \<Rightarrow> Inr (PyDate y m d))"
| "py_fromisoformat L v = Inl TypeError"

definition yt_thumbnail :: "pyval \<Rightarrow> exn + pyval" where
  "yt_thumbnail thumbnails =
     bnd (bnd (py_get thumbnails ''high'' (PyDict [])) (\<lambda>t. py_get t ''url'' PyNone)) (\<lambda>high.
     if truthy high then Inr high else
     bnd (bnd (py_get thumbnails ''medium'' (PyDict [])) (\<lambda>t. py_get t ''url'' PyNone)) (\<lambda>medium.
     if truthy medium then Inr medium else
     bnd (py_get thumbnails ''default'' (PyDict [])) (\<lambda>t. py_get t ''url'' PyNone)))"

text \<open>The locals of an iteration of the loop of \<^verbatim>\<open>parse_youtube_response\<close> once its
  assignments are done. \<open>f_publish_date\<close> is assigned only when \<open>publishedAt\<close> is
  there: it is the state the loop passes on, unbound at the start.\<close>

record yt_frame =
  f_video_id :: pyval
  f_snippet :: pyval
  f_thumbnail_high :: pyval
  f_duration :: pyval
  f_publish_date :: "pyval option"

definition yt_assign :: "pylib \<Rightarrow> pyval option \<Rightarrow> pyval \<Rightarrow> exn + yt_frame option" where
  "yt_assign L st item =
     bnd (py_get item ''id'' PyNone) (\<lambda>video_id.
     bnd (py_get item ''snippet'' (PyDict [])) (\<lambda>snippet.
     bnd (py_get item ''contentDetails'' (PyDict [])) (\<lambda>content_details.
     if \<not> truthy video_id then Inr None else
     bnd (py_get snippet ''title'' PyNone) (\<lambda>title0.
     if \<not> truthy title0 then Inr None else
     bnd (py_get snippet ''thumbnails'' (PyDict [])) (\<lambda>thumbnails.
     bnd (yt_thumbnail thumbnails) (\<lambda>thumbnail_high.
     bnd (py_get content_details ''duration'' PyNone) (\<lambda>duration0.
     bnd (if truthy duration0 then convert_youtube_duration duration0 else Inr duration0) (\<lambda>duration1.
     bnd (py_get snippet ''publishedAt'' PyNone) (\<lambda>publish_date_str.
     bnd (if truthy publish_date_str
          then bnd (py_fromisoformat L publish_date_str) (\<lambda>d. Inr (Some d))
          else Inr st) (\<lambda>st'.
     Inr (Some \<lparr>f_video_id = video_id, f_snippet = snippet, f_thumbnail_high = thumbnail_high,
                 f_duration = duration1, f_publish_date = st'\<rparr>)))))))))))"

definition yt_video :: "pylib \<Rightarrow> yt_frame \<Rightarrow> exn + CourseSchema" where
  "yt_video L fr =
     bnd (bnd (py_get (f_snippet fr) ''title'' PyNone) py_strip) (\<lambda>title0.
     let url0 = PyStr (''https://youtube.com/watch?v='' @ py_str L (f_video_id fr)) in
     bnd (py_get (f_snippet fr) ''channelTitle'' PyNone) (\<lambda>provider0.
     bnd (load (f_publish_date fr)) (\<lambda>course_date.
     CourseSchema_new L
       [(''title'', title0), (''url'', url0), (''image_url'', f_thumbnail_high fr),
        (''duration'', f_duration fr), (''provider'', provider0), (''provider_img'', PyNone),
        (''difficulty'', PyNone), (''avg_rating'', PyNone), (''count_rating'', PyNone),
        (''skills'', PyNone), (''course_date'', course_date)])))"

text \<open>One iteration: the state after it, and an exception (caught by the loop), no
  video (\<^verbatim>\<open>continue\<close>) or a video.\<close>

definition yt_item :: "pylib \<Rightarrow> pyval option \<Rightarrow> pyval \<Rightarrow> pyval option \<times> (exn + CourseSchema option)" where
  "yt_item L st item =
     (case yt_assign L st item of
        Inl e \<Rightarrow> (st, Inl e)
      | Inr None \<Rightarrow> (st, Inr None)
      | Inr (Some fr) \<Rightarrow> (f_publish_date fr, bnd (yt_video L fr) (\<lambda>video. Inr (Some video))))"

fun yt_loop :: "pylib \<Rightarrow> pyval option \<Rightarrow> pyval list \<Rightarrow> CourseSchema list \<Rightarrow> CourseSchema list" where
  "yt_loop L st [] videos = videos"
| "yt_loop L st (item # rest) videos =
     (case yt_item L st item of
        (st', Inr (Some video)) \<Rightarrow> yt_loop L st' rest (videos @ [video])
      | (st', _) \<Rightarrow> yt_loop L st' rest videos)"

definition parse_youtube_response :: "pylib \<Rightarrow> pyval \<Rightarrow> exn + CourseSchema list" where
  "parse_youtube_response L data =
     bnd (py_get data ''items'' (PyList [])) (\<lambda>items.
     bnd (py_iter items) (\<lambda>xs.
     Inr (yt_loop L None xs [])))"

section \<open>The upstream services and the requests\<close>

text \<open>
  What the network answers is an input of the model. An HTTP request ends in a timeout,
  in another transport failure, or in a response with a status and a body (\<open>None\<close> when
  the body is not JSON). A call of the YouTube client ends in an exception or in a
  decoded response. The effects of a call are the requests it sends and the pauses it
  takes, in the order they happen. The contents of a request are not modelled, so the
  language and the number of items appear only where the code tests them.
\<close>

datatype http_reply = TransportTimeout | TransportFailure | Reply int "pyval option"

datatype yt_reply = YtError | YtResult pyval

datatype platform = Coursera | EdX | Udemy | YouTube

datatype effect = Request platform | Sleep nat

record world =
  coursera_reply :: http_reply
  edx_reply :: "nat \<Rightarrow> http_reply"
  udemy_reply :: http_reply
  youtube_api_key :: bool
  youtube_search :: yt_reply
  youtube_videos :: "string \<Rightarrow> yt_reply"

subsection \<open>Coursera\<close>

text \<open>httpx: \<^verbatim>\<open>raise_for_status\<close> raises for every status that is not 2xx; a timeout is
  a \<^verbatim>\<open>RequestError\<close>.\<close>

definition fetch_coursera_courses :: "world \<Rightarrow> string \<Rightarrow> int \<Rightarrow> effect list \<times> (exn + pyval)" where
  "fetch_coursera_courses W query num_items =
     (if strip query = [] then ([], Inl ValueError)
      else if num_items \<le> 0 then ([], Inl ValueError)
      else ([Request Coursera],
        case coursera_reply W of
          TransportTimeout \<Rightarrow> Inl RequestError
        | TransportFailure \<Rightarrow> Inl RequestError
        | Reply status body \<Rightarrow>
            if \<not> (200 \<le> status \<and> status \<le> 299) then Inl HTTPStatusError
            else (case body of
                    None \<Rightarrow> Inl JSONDecodeError
                  | Some json_response \<Rightarrow>
                      if \<not> truthy json_response \<or> \<not> isinstance_list json_response then Inl ValueError
                      else py_index0 json_response)))"

definition get_coursera_courses :: "pylib \<Rightarrow> world \<Rightarrow> string \<Rightarrow> int \<Rightarrow> effect list \<times> (exn + CourseSchema list)" where
  "get_coursera_courses L W query num_items =
     (case fetch_coursera_courses W query num_items of
        (es, raw_data) \<Rightarrow> (es, bnd raw_data (parse_coursera_response L)))"

subsection \<open>Udemy\<close>

text \<open>requests: \<^verbatim>\<open>raise_for_status\<close> raises \<^verbatim>\<open>HTTPError\<close> for a 4xx or 5xx status; the
  handlers of the function name httpx's exceptions, which requests never raises.\<close>

definition fetch_udemy_courses :: "world \<Rightarrow> string \<Rightarrow> int \<Rightarrow> effect list \<times> (exn + pyval)" where
  "fetch_udemy_courses W query num_items =
     (if strip query = [] then ([], Inl ValueError)
      else if num_items \<le> 0 then ([], Inl ValueError)
      else ([Request Udemy],
        case udemy_reply W of
          TransportTimeout \<Rightarrow> Inl Timeout
        | TransportFailure \<Rightarrow> Inl ConnectionError
        | Reply status body \<Rightarrow>
            if 400 \<le> status \<and> status < 600 then Inl HTTPError
            else (case body of
                    None \<Rightarrow> Inl JSONDecodeError
                  | Some json_response \<Rightarrow>
                      if \<not> truthy json_response \<or> \<not> isinstance_dict json_response then Inl ValueError
                      else Inr json_response)))"

definition get_udemy_courses :: "pylib \<Rightarrow> world \<Rightarrow> string \<Rightarrow> int \<Rightarrow> effect list \<times> (exn + CourseSchema list)" where
  "get_udemy_courses L W query num_items =
     (case fetch_udemy_courses W query num_items of
        (es, raw_data) \<Rightarrow> (es, bnd raw_data (parse_udemy_response L)))"

subsection \<open>edX\<close>

definition MAX_RETRIES :: nat where
  "MAX_RETRIES = 2"

text \<open>
  The loop \<^verbatim>\<open>for attempt in range(MAX_RETRIES + 1)\<close> of \<^verbatim>\<open>fetch_edx_courses\<close>, from
  \<open>attempt\<close> on, with the effects so far. \<open>None\<close> is \<open>PyNone\<close>; a body that is not JSON
  raises in \<^verbatim>\<open>response.json()\<close>, which the last handler turns into \<open>None\<close>.
\<close>

function edx_attempts :: "world \<Rightarrow> nat \<Rightarrow> effect list \<Rightarrow> effect list \<times> pyval" where
  "edx_attempts W attempt es =
     (if attempt < MAX_RETRIES + 1 then
        (case edx_reply W attempt of
           Reply status body \<Rightarrow>
             if status = 200 then (es @ [Request EdX], case body of None \<Rightarrow> PyNone | Some v \<Rightarrow> v)
             else if status = 429 then
               (if attempt < MAX_RETRIES
                then edx_attempts W (attempt + 1) (es @ [Request EdX, Sleep (2 ^ attempt)])
                else (es @ [Request EdX], PyNone))
             else (es @ [Request EdX], PyNone)
         | TransportTimeout \<Rightarrow>
             (if attempt < MAX_RETRIES
              then edx_attempts W (attempt + 1) (es @ [Request EdX, Sleep 1])
              else (es @ [Request EdX], PyNone))
         | TransportFailure \<Rightarrow> (es @ [Request EdX], PyNone))
      else (es, PyNone))"
  by pat_completeness auto
termination
  by (relation "measure (\<lambda>(W, attempt, es). MAX_RETRIES + 1 - attempt)") auto

declare edx_attempts.simps [simp del]

definition fetch_edx_courses :: "world \<Rightarrow> string \<Rightarrow> effect list \<times> pyval" where
  "fetch_edx_courses W query =
     (if strip query = [] then ([], PyNone) else edx_attempts W 0 [])"

definition get_edx_courses :: "pylib \<Rightarrow> world \<Rightarrow> string \<Rightarrow> effect list \<times> (exn + CourseSchema list)" where
  "get_edx_courses L W query =
     (if query = [] \<or> strip query = [] then ([], Inr [])
      else case fetch_edx_courses W (strip query) of
        (es, raw_data) \<Rightarrow>
          if \<not> truthy raw_data then (es, Inr [])
          else (es, Inr (parse_edx_response L raw_data)))"

subsection \<open>YouTube\<close>

definition no_items :: pyval where
  "no_items = PyDict [(''items'', PyList [])]"

definition fetch_youtube_courses :: "world \<Rightarrow> effect list \<times> pyval" where
  "fetch_youtube_courses W =
     (if \<not> youtube_api_key W then ([], no_items)
      else ([Request YouTube],
        case youtube_search W of YtError \<Rightarrow> no_items | YtResult response \<Rightarrow> response))"

text \<open>\<^verbatim>\<open>",".join(video_ids)\<close>: a TypeError unless every element is a string.\<close>

fun join_ids :: "pyval list \<Rightarrow> exn + string" where
  "join_ids [] = Inr []"
| "join_ids [PyStr s] = Inr s"
| "join_ids (PyStr s # v # vs) = bnd (join_ids (v # vs)) (\<lambda>r. Inr (s @ '','' @ r))"
| "join_ids (v # vs) = Inl TypeError"

definition fetch_detailed_video_info :: "world \<Rightarrow> pyval list \<Rightarrow> effect list \<times> pyval" where
  "fetch_detailed_video_info W video_ids =
     (if \<not> youtube_api_key W then ([], no_items)
      else case join_ids video_ids of
        Inl e \<Rightarrow> ([], no_items)
      | Inr ids \<Rightarrow> ([Request YouTube],
          case youtube_videos W ids of YtError \<Rightarrow> no_items | YtResult response \<Rightarrow> response))"

fun collect_video_ids :: "pyval list \<Rightarrow> pyval list \<Rightarrow> exn + pyval list" where
  "collect_video_ids [] video_ids = Inr video_ids"
| "collect_video_ids (item # rest) video_ids =
     bnd (bnd (py_get item ''id'' (PyDict [])) (\<lambda>i. py_get i ''videoId'' PyNone)) (\<lambda>video_id.
     collect_video_ids rest (if truthy video_id then video_ids @ [video_id] else video_ids))"

definition get_youtube_courses :: "pylib \<Rightarrow> world \<Rightarrow> string \<Rightarrow> effect list \<times> (exn + CourseSchema list)" where
  "get_youtube_courses L W query =
     (if query = [] \<or> strip query = [] then ([], Inr [])
      else case fetch_youtube_courses W of
        (es1, raw_data) \<Rightarrow>
          (case bnd (py_get raw_data ''items'' (PyList [])) (\<lambda>items.
                bnd (py_iter items) (\<lambda>xs. collect_video_ids xs [])) of
             Inl e \<Rightarrow> (es1, Inr [])
           | Inr video_ids \<Rightarrow>
               if video_ids = [] then (es1, Inr [])
               else (case fetch_detailed_video_info W video_ids of
                 (es2, detailed_data) \<Rightarrow>
                   (es1 @ es2,
                    case parse_youtube_response L detailed_data of
                      Inl e \<Rightarrow> Inr []
                    | Inr detailed_courses \<Rightarrow> Inr detailed_courses))))"

section \<open>The router (\<^verbatim>\<open>app/routers/resources.py\<close>)\<close>

datatype Language = SPANISH | ENGLISH

fun lang_value :: "Language \<Rightarrow> string" where
  "lang_value SPANISH = ''es''"
| "lang_value ENGLISH = ''en''"

record PlatformResult =
  courses :: "CourseSchema list"
  redirect_url :: string

text \<open>The returned dictionary has the one key \<^verbatim>\<open>"results"\<close>; its value is the
  dictionary of the platforms, which the model keeps in the order of insertion.\<close>

record ApiResponse =
  results :: "(string \<times> PlatformResult) list"

definition lang_code_name :: "Language \<Rightarrow> string" where
  "lang_code_name lang = (if lang = SPANISH then ''Spanish'' else ''English'')"

definition lang_code_udemy :: "Language \<Rightarrow> string" where
  "lang_code_udemy lang = (if lang = SPANISH then ''ES'' else ''EN'')"

text \<open>The Spanish phrase of the source's literal holds the code point U+221A, which is
  written here as the three bytes of its UTF-8 encoding; nothing inspects it.\<close>

definition lang_code_youtube :: "Language \<Rightarrow> string" where
  "lang_code_youtube lang =
     (if lang = SPANISH
      then ''curso+completo+espa'' @ [char_of (226 :: nat), char_of (136 :: nat), char_of (154 :: nat), char_of (177 :: nat)] @ ''ol''
      else ''full+course'')"

text \<open>\<^verbatim>\<open>try: x = await get(...) except Exception: x = []\<close>\<close>

definition or_empty :: "exn + CourseSchema list \<Rightarrow> CourseSchema list" where
  "or_empty r = (case r of Inl e \<Rightarrow> [] | Inr cs \<Rightarrow> cs)"

definition search_courses :: "pylib \<Rightarrow> world \<Rightarrow> string \<Rightarrow> Language \<Rightarrow> int \<Rightarrow> effect list \<times> (exn + ApiResponse)" where
  "search_courses L W q lang num_items =
     (if strip q = [] then ([], Inl (HTTPException 400))
      else
        let query = strip q;
            encoded_query = quote L query;
            c = get_coursera_courses L W query num_items;
            e = get_edx_courses L W query;
            u = get_udemy_courses L W query num_items;
            y = get_youtube_courses L W query;
            coursera_url = ''https://coursera.org/search?query='' @ encoded_query @ ''&language='' @ lang_code_name lang;
            edx_url = ''https://www.edx.org/search?q='' @ encoded_query @ ''&language='' @ lang_code_name lang @ ''&availability=Available+now'';
            udemy_url = ''https://www.udemy.com/courses/search/?lang='' @ lang_code_udemy lang @ ''&price=price-free&q='' @ encoded_query;
            youtube_url = ''https://www.youtube.com/results?search_query='' @ encoded_query @ ''+'' @ lang_code_youtube lang
        in (fst c @ fst e @ fst u @ fst y,
            Inr \<lparr>results =
              [(''coursera'', \<lparr>courses = or_empty (snd c), redirect_url = coursera_url\<rparr>),
               (''edx'', \<lparr>courses = or_empty (snd e), redirect_url = edx_url\<rparr>),
               (''udemy'', \<lparr>courses = or_empty (snd u), redirect_url = udemy_url\<rparr>),
               (''youtube'', \<lparr>courses = or_empty (snd y), redirect_url = youtube_url\<rparr>)]\<rparr>))"

section \<open>Inputs of the statements\<close>

text \<open>A library for the examples: it takes the URLs that start with \<^verbatim>\<open>https://\<close> as
  they are and knows two dates.\<close>

definition example_lib :: pylib where
  "example_lib = \<lparr>
     HttpUrl = (\<lambda>s. if take 8 s = ''https://'' \<and> 8 < length s then Some s else None),
     float_of_str = (\<lambda>s. None),
     int_of_str = (\<lambda>s. None),
     repr = (\<lambda>v. ''?''),
     strptime = (\<lambda>s. if s = ''2024-01-15'' then Some (2024, 1, 15)
                       else if s = ''2023-05-05'' then Some (2023, 5, 5) else None),
     fromisoformat = (\<lambda>s. if s = ''2024-01-15T10:00:00+00:00'' then Some (2024, 1, 15) else None),
     quote = (\<lambda>s. s)\<rparr>"

text \<open>The responses that hold a list of items at the place each parser reads.\<close>

definition coursera_data :: "pyval list \<Rightarrow> pyval" where
  "coursera_data items =
     PyDict [(''data'', PyDict [(''SearchResult'', PyDict [(''search'',
       PyList [PyDict [(''elements'', PyList items)]])])])]"

definition udemy_data :: "pyval list \<Rightarrow> pyval" where
  "udemy_data items =
     PyDict [(''data'', PyDict [(''courseSearch'', PyDict [(''results'', PyList items)])])]"

text \<open>A token \<^verbatim>\<open>PT#H#M#S\<close> is made of components, each optional: the digits of a number
  and a letter. \<open>given\<close> is the number of a component, 0 when it is left out; \<open>short\<close>
  says that its digits are within the limit of \<^verbatim>\<open>int\<close>.\<close>

definition component :: "nat option \<Rightarrow> char \<Rightarrow> string" where
  "component v c = (case v of None \<Rightarrow> [] | Some n \<Rightarrow> str_nat n @ [c])"

definition given :: "nat option \<Rightarrow> nat" where
  "given v = (case v of None \<Rightarrow> 0 | Some n \<Rightarrow> n)"

definition short :: "nat option \<Rightarrow> bool" where
  "short v = (case v of None \<Rightarrow> True | Some n \<Rightarrow> length (str_nat n) \<le> 4300)"

text \<open>The number a JSON number stands for.\<close>

definition num_value :: "pyval \<Rightarrow> rat option" where
  "num_value v = (case v of PyFloat q \<Rightarrow> Some q | PyInt i \<Rightarrow> Some (of_int i) | _ \<Rightarrow> None)"

definition coursera_course :: pyval where
  "coursera_course = PyDict
     [(''name'', PyStr ''Machine Learning''),
      (''url'', PyStr ''/learn/machine-learning''),
      (''imageUrl'', PyStr ''https://d3njjcbhbojbot.cloudfront.net/ml.png''),
      (''productDifficultyLevel'', PyStr ''BEGINNER''),
      (''productDuration'', PyStr ''ONE_TO_THREE_MONTHS''),
      (''avgProductRating'', PyFloat (14 / 3)),
      (''numProductRatings'', PyInt 1500),
      (''skills'', PyList [PyStr ''Python'']),
      (''partners'', PyList [PyStr ''Stanford University'']),
      (''partnerLogos'', PyList [PyStr ''https://d3njjcbhbojbot.cloudfront.net/stanford.png''])]"

definition coursera_untitled :: pyval where
  "coursera_untitled = PyDict
     [(''url'', PyStr ''/learn/no-title''),
      (''partners'', PyList [PyStr ''Stanford University'']),
      (''partnerLogos'', PyList [PyStr ''https://d3njjcbhbojbot.cloudfront.net/stanford.png''])]"

definition coursera_empty_title :: pyval where
  "coursera_empty_title = PyDict [(''name'', PyStr []), (''url'', PyStr ''/learn/x'')]"

definition coursera_no_partners :: pyval where
  "coursera_no_partners = PyDict
     [(''name'', PyStr ''Machine Learning''),
      (''url'', PyStr ''/learn/machine-learning''),
      (''partners'', PyList []),
      (''partnerLogos'', PyList [])]"

definition udemy_course_on :: "string \<Rightarrow> pyval" where
  "udemy_course_on updated = PyDict [(''course'', PyDict
     [(''title'', PyStr ''Python Basics ''),
      (''urlCourseLanding'', PyStr ''https://www.udemy.com/course/python-basics/''),
      (''images'', PyDict [(''px240x135'', PyStr ''https://img-c.udemycdn.com/course/240x135/1.jpg'')]),
      (''durationInSeconds'', PyInt 5400),
      (''level'', PyStr ''ALL_LEVELS''),
      (''rating'', PyDict [(''average'', PyFloat (14 / 3)), (''count'', PyInt 12)]),
      (''updatedOn'', PyStr updated)])]"

definition udemy_course :: pyval where
  "udemy_course = udemy_course_on ''2024-01-15''"

definition udemy_untitled :: pyval where
  "udemy_untitled = PyDict [(''course'', PyDict
     [(''urlCourseLanding'', PyStr ''https://www.udemy.com/course/no-title/''),
      (''images'', PyDict [(''px240x135'', PyStr ''https://img-c.udemycdn.com/course/240x135/2.jpg'')]),
      (''rating'', PyDict [(''average'', PyFloat (9 / 2)), (''count'', PyInt 3)])])]"






definition youtube_video :: pyval where
  "youtube_video = PyDict
     [(''id'', PyStr ''abc123''),
      (''snippet'', PyDict [(''title'', PyStr ''Python full course''),
         (''channelTitle'', PyStr ''Some channel''),
         (''publishedAt'', PyStr ''2024-01-15T10:00:00+00:00'')]),
      (''contentDetails'', PyDict [(''duration'', PyStr ''PT1H5M'')])]"

definition youtube_blank_title :: pyval where
  "youtube_blank_title = PyDict
     [(''id'', PyStr ''abc123''),
      (''snippet'', PyDict [(''title'', PyStr '' ''),
         (''publishedAt'', PyStr ''2024-01-15T10:00:00+00:00'')])]"

definition youtube_data :: "pyval list \<Rightarrow> pyval" where
  "youtube_data items = PyDict [(''items'', PyList items)]"

text \<open>The number of requests sent to edX among the effects of a call; the failures that
  \<^verbatim>\<open>fetch_edx_courses\<close> tries again after (a timeout, the status 429); the replies that
  count as a failed upstream call (a transport failure, a 4xx or 5xx status, a body that
  is not JSON).\<close>

definition attempts :: "effect list \<Rightarrow> nat" where
  "attempts es = length (filter (\<lambda>e. e = Request EdX) es)"

definition transient :: "http_reply \<Rightarrow> bool" where
  "transient r = (case r of TransportTimeout \<Rightarrow> True | TransportFailure \<Rightarrow> False
                  | Reply status body \<Rightarrow> status = 429)"

definition failed :: "http_reply \<Rightarrow> bool" where
  "failed r = (case r of TransportTimeout \<Rightarrow> True | TransportFailure \<Rightarrow> True
               | Reply status body \<Rightarrow> (400 \<le> status \<and> status < 600) \<or> body = None)"

text \<open>The pause after a transient reply to attempt \<open>attempt\<close>; the requests and pauses of
  a call whose attempts before \<open>k\<close> are tried again and whose attempt \<open>k\<close> is the last; what
  the reply to the last attempt gives.\<close>

definition pause :: "http_reply \<Rightarrow> nat \<Rightarrow> nat" where
  "pause r attempt = (if r = TransportTimeout then 1 else 2 ^ attempt)"

definition retry_trace :: "world \<Rightarrow> nat \<Rightarrow> effect list" where
  "retry_trace W k =
     concat (map (\<lambda>j. [Request EdX, Sleep (pause (edx_reply W j) j)]) [0..<k]) @ [Request EdX]"

definition final_result :: "http_reply \<Rightarrow> pyval" where
  "final_result r = (case r of
       Reply status body \<Rightarrow>
         if status = 200 then (case body of None \<Rightarrow> PyNone | Some v \<Rightarrow> v) else PyNone
     | _ \<Rightarrow> PyNone)"

definition edx_hit :: pyval where
  "edx_hit = PyDict
     [(''title'', PyStr ''CS50: Introduction to Computer Science''),
      (''marketing_url'', PyStr ''https://www.edx.org/learn/computer-science/harvard-cs50''),
      (''card_image_url'', PyStr ''https://prod-discovery.edx-cdn.org/cs50.png''),
      (''owners'', PyList [PyDict [(''name'', PyStr ''Harvard University''),
         (''logoImageUrl'', PyStr ''https://prod-discovery.edx-cdn.org/harvard.png'')]]),
      (''weeks_to_complete'', PyInt 12),
      (''skills'', PyList [PyDict [(''skill'', PyStr ''C'')], PyDict [(''skill'', PyStr ''Algorithms'')]]),
      (''level'', PyList [PyStr ''Introductory''])]"

definition edx_data :: "pyval list \<Rightarrow> pyval" where
  "edx_data items = PyDict [(''results'', PyList [PyDict [(''hits'', PyList items)]])]"

text \<open>A world in which Coursera and YouTube answer, Udemy answers with the status 500,
  and edX answers 429 to its first \<open>n\<close> requests and 200 afterwards.\<close>

definition example_world :: "nat \<Rightarrow> world" where
  "example_world n = \<lparr>
     coursera_reply = Reply 200 (Some (PyList [coursera_data [coursera_course]])),
     edx_reply = (\<lambda>k. if k < n then Reply 429 None else Reply 200 (Some (edx_data [edx_hit]))),
     udemy_reply = Reply 500 None,
     youtube_api_key = True,
     youtube_search = YtResult (youtube_data [PyDict [(''id'', PyDict [(''videoId'', PyStr ''abc123'')])]]),
     youtube_videos = (\<lambda>ids. if ids = ''abc123'' then YtResult (youtube_data [youtube_video]) else YtError)\<rparr>"

section \<open>Lemmas\<close>

lemma bnd_simps [simp]: "bnd (Inl e) f = Inl e" "bnd (Inr v) f = f v"
  by (simp_all add: bnd_def)

lemma bnd_Inr_iff: "bnd m f = Inr r \<longleftrightarrow> (\<exists>v. m = Inr v \<and> f v = Inr r)"
  by (cases m) auto

lemma char_of_eval:
  "char_of (numeral k :: nat) =
     Char (odd (numeral k :: nat)) (odd (numeral k div 2 :: nat)) (odd (numeral k div 4 :: nat))
       (odd (numeral k div 8 :: nat)) (odd (numeral k div 16 :: nat)) (odd (numeral k div 32 :: nat))
       (odd (numeral k div 64 :: nat)) (odd (numeral k div 128 :: nat))"
  by (simp add: char_of_def bit_iff_odd)

lemmas example_defs = example_lib_def coursera_data_def udemy_data_def youtube_data_def
  coursera_course_def coursera_untitled_def coursera_empty_title_def coursera_no_partners_def
  udemy_course_def udemy_course_on_def udemy_untitled_def youtube_video_def youtube_blank_title_def

subsection \<open>The constructor keeps what it validated\<close>

lemma validate_fields:
  assumes "CourseSchema_new L kw = Inr c"
  shows "required kw ''title'' v_str = Some (title c)"
    and "required kw ''url'' (v_url L) = Some (url c)"
    and "defaulted kw ''duration'' v_str = Some (duration c)"
    and "defaulted kw ''avg_rating'' (v_float L) = Some (avg_rating c)"
    and "defaulted kw ''count_rating'' (v_int L) = Some (count_rating c)"
    and "defaulted kw ''provider'' v_str = Some (provider c)"
    and "defaulted kw ''difficulty'' v_str = Some (difficulty c)"
  using assms
  by (auto simp: CourseSchema_new_def validate_def bind_eq_Some_conv split: option.splits)

subsection \<open>Digits\<close>

lemma isdigit_digit: "(k::nat) < 10 \<Longrightarrow> isdigit (char_of (48 + k))"
  by (simp add: isdigit_def)

lemma str_nat_digits: "list_all isdigit (str_nat n)"
proof (induction n rule: str_nat.induct)
  case (1 n)
  show ?case
  proof (cases "n < 10")
    case True
    then show ?thesis by (subst str_nat.simps) (simp add: isdigit_digit)
  next
    case False
    with 1 show ?thesis by (subst str_nat.simps) (simp add: isdigit_digit)
  qed
qed

lemma str_nat_nonempty: "str_nat n \<noteq> []"
  by (subst str_nat.simps) simp

lemma int_digits_snoc: "int_digits (xs @ [c]) = 10 * int_digits xs + (of_char c - 48)"
  by (simp add: int_digits_def)

lemma int_digits_str_nat: "int_digits (str_nat n) = n"
proof (induction n rule: str_nat.induct)
  case (1 n)
  show ?case
  proof (cases "n < 10")
    case True
    then show ?thesis by (subst str_nat.simps) (simp add: int_digits_def)
  next
    case False
    with 1 have "int_digits (str_nat (n div 10)) = n div 10" by simp
    with False show ?thesis
      by (subst str_nat.simps) (simp add: int_digits_snoc)
  qed
qed

lemma span_str_nat:
  assumes "\<not> isdigit c"
  shows "takeWhile isdigit (str_nat n @ c # rest) = str_nat n"
    and "dropWhile isdigit (str_nat n @ c # rest) = c # rest"
proof -
  have d: "\<forall>x\<in>set (str_nat n). isdigit x"
    using str_nat_digits[of n] by (simp add: list_all_iff)
  show "takeWhile isdigit (str_nat n @ c # rest) = str_nat n"
    using assms d by (simp add: takeWhile_append2)
  show "dropWhile isdigit (str_nat n @ c # rest) = c # rest"
    using assms d by (simp add: dropWhile_append2)
qed

lemma re_group_hit:
  "\<not> isdigit c \<Longrightarrow> re_group c (str_nat n @ c # rest) = (Some (str_nat n), rest)"
  by (simp add: re_group_def span_str_nat str_nat_nonempty)

lemma re_group_miss:
  "\<not> isdigit c' \<Longrightarrow> c' \<noteq> c \<Longrightarrow> re_group c (str_nat n @ c' # rest) = (None, str_nat n @ c' # rest)"
  by (simp add: re_group_def span_str_nat)

lemma re_group_Nil: "re_group c [] = (None, [])"
  by (simp add: re_group_def)

subsection \<open>Durations\<close>

lemma convert_components:
  assumes "short h" "short m" "short s"
  shows "convert_youtube_duration
           (PyStr (''PT'' @ component h CHR ''H'' @ component m CHR ''M'' @ component s CHR ''S''))
         = Inr (PyStr (format_duration (given h) (given m) (given s)))"
proof -
  have nd: "\<not> isdigit CHR ''H''" "\<not> isdigit CHR ''M''" "\<not> isdigit CHR ''S''"
    by (simp_all add: isdigit_def)
  show ?thesis
    using assms
    by (cases h; cases m; cases s)
       (simp_all add: convert_youtube_duration_def component_def given_def short_def
          re_group_hit re_group_miss re_group_Nil nd int_digits_str_nat)
qed

lemma convert_PT1H5M: "convert_youtube_duration (PyStr ''PT1H5M'') = Inr (PyStr ''1h 5m'')"
  by (simp add: convert_youtube_duration_def re_group_def isdigit_def int_digits_def
      format_duration_def str_nat.simps char_of_eval)

lemma convert_PT45S: "convert_youtube_duration (PyStr ''PT45S'') = Inr (PyStr ''45s'')"
  by (simp add: convert_youtube_duration_def re_group_def isdigit_def int_digits_def
      format_duration_def str_nat.simps char_of_eval)

lemma udemy_duration_int:
  "d \<noteq> 0 \<Longrightarrow> udemy_duration L (PyInt d) =
     Inr (PyStr (str_int (d div 3600) @ ''h '' @ str_int (d mod 3600 div 60) @ ''m''))"
  by (simp add: udemy_duration_def)

lemma udemy_item_duration:
  assumes "udemy_item L st (PyDict item) = Inr (st', c)"
    and "map_of item ''course'' = Some (PyDict cd)"
    and "map_of cd ''durationInSeconds'' = Some (PyInt d)" and "d \<noteq> 0"
  shows "duration c = Some (str_int (d div 3600) @ ''h '' @ str_int (d mod 3600 div 60) @ ''m'')"
proof -
  from assms obtain kw where kw: "CourseSchema_new L kw = Inr c"
    and "map_of kw ''duration'' =
           Some (PyStr (str_int (d div 3600) @ ''h '' @ str_int (d mod 3600 div 60) @ ''m''))"
    by (auto simp: udemy_item_def udemy_assign_def udemy_build_def udemy_duration_def bnd_Inr_iff split: if_splits)
  with validate_fields(3)[OF kw] show ?thesis by (simp add: defaulted_def)
qed

lemma yt_item_duration:
  assumes "yt_item L st (PyDict item) = (st', Inr (Some c))"
    and "map_of item ''contentDetails'' = Some (PyDict cd)"
    and "map_of cd ''duration'' = Some (PyStr tok)" and "tok \<noteq> []"
    and "convert_youtube_duration (PyStr tok) = Inr (PyStr s)"
  shows "duration c = Some s"
proof -
  from assms obtain kw where kw: "CourseSchema_new L kw = Inr c"
    and "map_of kw ''duration'' = Some (PyStr s)"
    by (auto simp: yt_item_def yt_assign_def yt_video_def bnd_Inr_iff Let_def
        split: if_splits sum.splits option.splits)
  with validate_fields(3)[OF kw] show ?thesis by (simp add: defaulted_def)
qed

subsection \<open>Rounding\<close>

lemma round1_of_int: "round1 (of_int i) = of_int i"
proof -
  have "(of_int i :: rat) * 10 = of_int (i * 10)" by simp
  then show ?thesis unfolding round1_def Let_def by (simp del: of_int_mult)
qed

lemma round1_47: "465 / 100 < q \<Longrightarrow> q < 475 / 100 \<Longrightarrow> round1 q = 47 / 10"
proof -
  assume a: "465 / 100 < q" "q < 475 / 100"
  then have "46 \<le> q * 10" "q * 10 < 48" by simp_all
  then have "\<lfloor>q * 10\<rfloor> = 46 \<or> \<lfloor>q * 10\<rfloor> = 47" by linarith
  then show ?thesis
  proof
    assume "\<lfloor>q * 10\<rfloor> = 46"
    with a show ?thesis by (simp add: round1_def Let_def)
  next
    assume "\<lfloor>q * 10\<rfloor> = 47"
    with a show ?thesis by (simp add: round1_def Let_def)
  qed
qed

lemma round1_14_3: "round1 (14 / 3) = 47 / 10"
  by (rule round1_47) simp_all

subsection \<open>Ratings\<close>

lemma coursera_item_rating:
  assumes "coursera_item L (PyDict item) = Inr c"
    and "map_of item ''avgProductRating'' = Some v" and "num_value v = Some q"
  shows "avg_rating c = Some (round1 q)"
proof -
  from assms(1) obtain kw a where kw: "CourseSchema_new L kw = Inr c"
    and a: "map_of kw ''avg_rating'' = Some a"
    and r: "py_round1 v = Inr a"
    using assms(2,3)
    by (auto simp: coursera_item_def bnd_Inr_iff Let_def num_value_def split: if_splits pyval.splits)
  from validate_fields(4)[OF kw] a have "v_optional (v_float L) a = Some (avg_rating c)"
    by (simp add: defaulted_def)
  with assms(3) r show ?thesis
    by (auto simp: num_value_def round1_of_int split: pyval.splits if_splits)
qed

lemma udemy_item_rating:
  assumes "udemy_item L st (PyDict item) = Inr (st', c)"
    and "map_of item ''course'' = Some (PyDict cd)"
    and "map_of cd ''rating'' = Some (PyDict r)"
    and "map_of r ''average'' = Some v" and "num_value v = Some q"
  shows "avg_rating c = Some (round1 q)"
proof -
  from assms(4) have rne: "r \<noteq> []" by auto
  from assms(1) obtain kw a where kw: "CourseSchema_new L kw = Inr c"
    and a: "map_of kw ''avg_rating'' = Some a"
    and r: "py_round1 v = Inr a"
    using assms(2,3,4) rne
    by (auto simp: udemy_item_def udemy_assign_def udemy_build_def udemy_rating_def bnd_Inr_iff split: if_splits)
  from validate_fields(4)[OF kw] a have "v_optional (v_float L) a = Some (avg_rating c)"
    by (simp add: defaulted_def)
  with assms(5) r show ?thesis
    by (auto simp: num_value_def round1_of_int split: pyval.splits if_splits)
qed

subsection \<open>The loops that let an exception through\<close>

text \<open>When the loop of the Coursera or of the Udemy parser returns, it has made one
  record of every dictionary among the items, in their order.\<close>

lemma coursera_loop_items:
  "coursera_loop L items acc = Inr rs \<Longrightarrow>
     \<exists>cs. rs = acc @ cs \<and>
       list_all2 (\<lambda>item c. coursera_item L item = Inr c) (filter isinstance_dict items) cs"
proof (induction items arbitrary: acc)
  case Nil
  then show ?case by simp
next
  case (Cons item rest)
  show ?case
  proof (cases "isinstance_dict item")
    case False
    with Cons show ?thesis by simp
  next
    case True
    with Cons.prems obtain c where c: "coursera_item L item = Inr c"
      and l: "coursera_loop L rest (acc @ [c]) = Inr rs"
      by (auto simp: bnd_Inr_iff)
    from Cons.IH[OF l] obtain cs where "rs = (acc @ [c]) @ cs"
      and "list_all2 (\<lambda>item c. coursera_item L item = Inr c) (filter isinstance_dict rest) cs"
      by blast
    with True c show ?thesis by auto
  qed
qed

lemma udemy_loop_items:
  "udemy_loop L st items acc = Inr rs \<Longrightarrow>
     \<exists>cs. rs = acc @ cs \<and>
       list_all2 (\<lambda>item c. \<exists>st0 st1. udemy_item L st0 item = Inr (st1, c))
         (filter isinstance_dict items) cs"
proof (induction items arbitrary: st acc)
  case Nil
  then show ?case by simp
next
  case (Cons item rest)
  show ?case
  proof (cases "isinstance_dict item")
    case False
    with Cons show ?thesis by simp
  next
    case True
    with Cons.prems obtain st1 c where c: "udemy_item L st item = Inr (st1, c)"
      and l: "udemy_loop L st1 rest (acc @ [c]) = Inr rs"
      by (auto simp: bnd_Inr_iff)
    from Cons.IH[OF l] obtain cs where "rs = (acc @ [c]) @ cs"
      and "list_all2 (\<lambda>item c. \<exists>st0 st1. udemy_item L st0 item = Inr (st1, c))
             (filter isinstance_dict rest) cs"
      by blast
    with True c show ?thesis by auto
  qed
qed

lemma parse_coursera_items:
  assumes "coursera_elements data = Inr (PyList items)" "parse_coursera_response L data = Inr cs"
  shows "list_all2 (\<lambda>item c. coursera_item L item = Inr c) (filter isinstance_dict items) cs"
  using assms coursera_loop_items[of L items "[]" cs]
  by (simp add: parse_coursera_response_def)

lemma parse_udemy_items:
  assumes "udemy_elements data = Inr (PyList items)" "parse_udemy_response L data = Inr cs"
  shows "list_all2 (\<lambda>item c. \<exists>st0 st1. udemy_item L st0 item = Inr (st1, c))
           (filter isinstance_dict items) cs"
  using assms udemy_loop_items[of L unbound items "[]" cs]
  by (simp add: parse_udemy_response_def)

subsection \<open>The locals of the Udemy loop\<close>
















subsection \<open>Stripping\<close>

lemma dropWhile_self: "xs = [] \<or> \<not> P (hd xs) \<Longrightarrow> dropWhile P xs = xs"
  by (cases xs) auto

lemma strip_strip: "strip (strip s) = strip s"
proof -
  define t where "t = dropWhile isspace s"
  define u where "u = rev (dropWhile isspace (rev t))"
  have t: "t = [] \<or> \<not> isspace (hd t)"
    unfolding t_def using hd_dropWhile[of isspace s] by blast
  have tu: "t = u @ rev (takeWhile isspace (rev t))"
    unfolding u_def by (metis rev_append rev_rev_ident takeWhile_dropWhile_id)
  have u1: "u = [] \<or> \<not> isspace (hd u)"
  proof (cases "u = []")
    case False
    with tu have "hd t = hd u" by (metis hd_append2)
    moreover from False tu have "t \<noteq> []" by auto
    ultimately show ?thesis using t by simp
  qed simp
  have u2: "rev u = [] \<or> \<not> isspace (hd (rev u))"
    unfolding u_def using hd_dropWhile[of isspace "rev t"] by auto
  have "strip s = u" by (simp add: strip_def t_def u_def)
  moreover have "strip u = u"
    by (simp add: strip_def dropWhile_self[of u isspace, OF u1]
        dropWhile_self[of "rev u" isspace, OF u2])
  ultimately show ?thesis by simp
qed

lemma strip_python: "strip '' python '' = ''python''"
  by (simp add: strip_def isspace_def)

subsection \<open>The attempts of the edX request\<close>

lemma edx_attempts_bound:
  "attempts (fst (edx_attempts W k es)) \<le> attempts es + (MAX_RETRIES + 1 - k)"
proof (induction W k es rule: edx_attempts.induct)
  case (1 W attempt es)
  show ?case
    apply (subst edx_attempts.simps)
    using 1
    apply (auto simp: attempts_def MAX_RETRIES_def split: http_reply.splits)
    done
qed

lemma edx_429_200:
  assumes "edx_reply W 0 = Reply 429 b" "edx_reply W 1 = Reply 200 (Some v)"
  shows "edx_attempts W 0 [] = ([Request EdX, Sleep 1, Request EdX], v)"
  using assms by (simp add: edx_attempts.simps MAX_RETRIES_def)

lemma edx_all_timeouts:
  assumes "\<forall>k<3. edx_reply W k = TransportTimeout"
  shows "edx_attempts W 0 [] = ([Request EdX, Sleep 1, Request EdX, Sleep 1, Request EdX], PyNone)"
proof -
  from assms have "edx_reply W 0 = TransportTimeout" "edx_reply W (Suc 0) = TransportTimeout"
    "edx_reply W (Suc (Suc 0)) = TransportTimeout"
    by (simp_all add: numeral_3_eq_3)
  then show ?thesis by (simp add: edx_attempts.simps MAX_RETRIES_def)
qed

lemma edx_all_429:
  assumes "\<forall>k<3. \<exists>b. edx_reply W k = Reply 429 b"
  shows "edx_attempts W 0 [] = ([Request EdX, Sleep 1, Request EdX, Sleep 2, Request EdX], PyNone)"
proof -
  from assms have "\<exists>b. edx_reply W 0 = Reply 429 b" "\<exists>b. edx_reply W (Suc 0) = Reply 429 b"
    "\<exists>b. edx_reply W (Suc (Suc 0)) = Reply 429 b"
    by (simp_all add: numeral_3_eq_3)
  then show ?thesis by (auto simp: edx_attempts.simps MAX_RETRIES_def)
qed

lemma edx_transient_gives_up:
  assumes "\<forall>k<3. transient (edx_reply W k)"
  shows "snd (edx_attempts W 0 []) = PyNone \<and> attempts (fst (edx_attempts W 0 [])) = 3"
proof -
  from assms have "transient (edx_reply W 0)" "transient (edx_reply W (Suc 0))"
    "transient (edx_reply W (Suc (Suc 0)))"
    by (simp_all add: numeral_3_eq_3)
  then show ?thesis
    by (auto simp: edx_attempts.simps MAX_RETRIES_def transient_def attempts_def
        split: http_reply.splits)
qed

lemma edx_first_final:
  assumes "\<not> transient (edx_reply W 0)"
  shows "attempts (fst (edx_attempts W 0 [])) = 1"
  using assms
  by (auto simp: edx_attempts.simps MAX_RETRIES_def transient_def attempts_def
      split: http_reply.splits)

lemma attempts_retry_trace: "attempts (retry_trace W k) = k + 1"
  by (induction k) (simp_all add: retry_trace_def attempts_def)

lemma transient_cases:
  "transient r \<longleftrightarrow> r = TransportTimeout \<or> (\<exists>b. r = Reply 429 b)"
  by (cases r) (auto simp: transient_def)

lemma edx_attempts_0:
  assumes "\<not> transient (edx_reply W 0)"
  shows "edx_attempts W 0 [] = (retry_trace W 0, final_result (edx_reply W 0))"
  using assms
  by (cases "edx_reply W 0")
     (simp_all add: edx_attempts.simps MAX_RETRIES_def transient_def retry_trace_def final_result_def)

lemma edx_attempts_1:
  assumes "transient (edx_reply W 0)" "\<not> transient (edx_reply W (Suc 0))"
  shows "edx_attempts W 0 [] = (retry_trace W (Suc 0), final_result (edx_reply W (Suc 0)))"
  using assms(2) assms(1)[unfolded transient_cases]
  by (cases "edx_reply W (Suc 0)")
     (auto simp: edx_attempts.simps MAX_RETRIES_def transient_def retry_trace_def final_result_def
        pause_def)

lemma edx_attempts_2:
  assumes "transient (edx_reply W 0)" "transient (edx_reply W (Suc 0))"
  shows "edx_attempts W 0 [] =
    (retry_trace W (Suc (Suc 0)), final_result (edx_reply W (Suc (Suc 0))))"
  using assms[unfolded transient_cases]
  by (cases "edx_reply W (Suc (Suc 0))")
     (auto simp: edx_attempts.simps MAX_RETRIES_def retry_trace_def final_result_def pause_def)

lemma edx_attempts_spec:
  assumes "k < 3" and "\<forall>j<k. transient (edx_reply W j)"
    and "k = 2 \<or> \<not> transient (edx_reply W k)"
  shows "edx_attempts W 0 [] = (retry_trace W k, final_result (edx_reply W k))"
proof -
  from assms(1) consider "k = 0" | "k = Suc 0" | "k = Suc (Suc 0)" by linarith
  then show ?thesis
  proof cases
    case 1
    with assms(3) show ?thesis by (simp add: edx_attempts_0)
  next
    case 2
    with assms(2,3) show ?thesis by (simp add: edx_attempts_1)
  next
    case 3
    with assms(2) have "transient (edx_reply W 0)" "transient (edx_reply W (Suc 0))" by simp_all
    with 3 show ?thesis by (simp add: edx_attempts_2)
  qed
qed

lemma parse_edx_falsy: "\<not> truthy v \<Longrightarrow> parse_edx_response L v = []"
  by (simp add: parse_edx_response_def)

lemma get_edx_courses_eq:
  assumes "strip q \<noteq> []"
  shows "get_edx_courses L W q =
    (fst (edx_attempts W 0 []), Inr (parse_edx_response L (snd (edx_attempts W 0 []))))"
proof -
  from assms have "q \<noteq> []" by (auto simp: strip_def)
  with assms show ?thesis
    by (simp add: get_edx_courses_def fetch_edx_courses_def strip_strip parse_edx_falsy
        split: prod.splits)
qed

subsection \<open>A failed upstream call leaves no course\<close>

lemma coursera_failed:
  "failed (coursera_reply W) \<Longrightarrow> \<exists>e. snd (get_coursera_courses L W query n) = Inl e"
  by (auto simp: get_coursera_courses_def fetch_coursera_courses_def failed_def
      split: http_reply.splits option.splits)

lemma udemy_failed:
  "failed (udemy_reply W) \<Longrightarrow> \<exists>e. snd (get_udemy_courses L W query n) = Inl e"
  by (auto simp: get_udemy_courses_def fetch_udemy_courses_def failed_def
      split: http_reply.splits option.splits)

lemma edx_failed:
  assumes "\<forall>k<3. failed (edx_reply W k)"
  shows "snd (edx_attempts W 0 []) = PyNone"
proof -
  from assms have "failed (edx_reply W 0)" "failed (edx_reply W (Suc 0))"
    "failed (edx_reply W (Suc (Suc 0)))"
    by (simp_all add: numeral_3_eq_3)
  then show ?thesis
    by (auto simp: edx_attempts.simps MAX_RETRIES_def failed_def split: http_reply.splits)
qed

lemma youtube_never_raises: "\<exists>cs. snd (get_youtube_courses L W query) = Inr cs"
  by (auto simp: get_youtube_courses_def split: prod.splits sum.splits)

lemma youtube_failed:
  assumes "youtube_search W = YtError \<or> \<not> youtube_api_key W
    \<or> (\<forall>ids. youtube_videos W ids = YtError)"
  shows "snd (get_youtube_courses L W query) = Inr []"
  using assms
  by (auto simp: get_youtube_courses_def fetch_youtube_courses_def fetch_detailed_video_info_def
      no_items_def parse_youtube_response_def split: prod.splits sum.splits yt_reply.splits)

subsection \<open>The constructor ignores \<^verbatim>\<open>course_date\<close>\<close>

lemma map_of_snoc_other: "k \<noteq> k' \<Longrightarrow> map_of (kw @ [(k', v)]) k = map_of kw k"
  by (induction kw) auto

lemma validate_ignores_course_date: "validate L (kw @ [(''course_date'', v)]) = validate L kw"
  by (simp add: validate_def required_def defaulted_def map_of_snoc_other del: map_of_append)

subsection \<open>The examples, evaluated\<close>

lemmas eval_defs = coursera_item_def udemy_item_def udemy_assign_def udemy_build_def udemy_duration_def udemy_rating_def unbound_def
  CourseSchema_new_def validate_def required_def defaulted_def
  strip_def isspace_def lower_def lower_char_def replace_underscores_def char_of_eval
  str_int_def str_nat.simps round1_14_3 Let_def
  parse_coursera_response_def coursera_elements_def parse_udemy_response_def udemy_elements_def

lemma coursera_course_parsed:
  "parse_coursera_response example_lib (coursera_data [coursera_course]) =
     Inr [\<lparr>title = ''Machine Learning'',
           url = ''https://www.coursera.org/learn/machine-learning'',
           image_url = Some ''https://d3njjcbhbojbot.cloudfront.net/ml.png'',
           duration = Some ''one to three months'', provider = Some ''Stanford University'',
           provider_img = Some ''https://d3njjcbhbojbot.cloudfront.net/stanford.png'',
           difficulty = Some ''beginner'', avg_rating = Some (47 / 10), count_rating = Some 1500,
           skills = Some [''Python'']\<rparr>]"
  by (simp add: example_defs eval_defs)

lemma udemy_course_parsed:
  "udemy_item example_lib unbound udemy_course =
     Inr (\<lparr>l_avg_rating = Some (PyFloat (47 / 10)), l_count_rating = Some (PyInt 12)\<rparr>,
          \<lparr>title = ''Python Basics'',
           url = ''https://www.udemy.com/course/python-basics/'',
           image_url = Some ''https://img-c.udemycdn.com/course/240x135/1.jpg'',
           duration = Some ''1h 30m'', provider = None, provider_img = None,
           difficulty = Some ''all levels'', avg_rating = Some (47 / 10), count_rating = Some 12,
           skills = None\<rparr>)"
  by (simp add: example_defs eval_defs)

lemma udemy_batch_parsed:
  "updated = ''2024-01-15'' \<or> updated = ''2023-05-05'' \<Longrightarrow>
   parse_udemy_response example_lib (udemy_data [udemy_course_on updated]) =
     Inr [\<lparr>title = ''Python Basics'',
           url = ''https://www.udemy.com/course/python-basics/'',
           image_url = Some ''https://img-c.udemycdn.com/course/240x135/1.jpg'',
           duration = Some ''1h 30m'', provider = None, provider_img = None,
           difficulty = Some ''all levels'', avg_rating = Some (47 / 10), count_rating = Some 12,
           skills = None\<rparr>]"
  by (auto simp add: example_defs eval_defs)



lemma edx_hit_parsed:
  "parse_edx_response example_lib (edx_data [edx_hit]) =
     [\<lparr>title = ''CS50: Introduction to Computer Science'',
       url = ''https://www.edx.org/learn/computer-science/harvard-cs50'',
       image_url = Some ''https://prod-discovery.edx-cdn.org/cs50.png'',
       duration = Some ''12 weeks'', provider = Some ''Harvard University'',
       provider_img = Some ''https://prod-discovery.edx-cdn.org/harvard.png'',
       difficulty = Some ''Introductory'', avg_rating = None, count_rating = None,
       skills = Some [''C'', ''Algorithms'']\<rparr>]"
  by (simp add: example_defs edx_hit_def edx_data_def parse_edx_response_def edx_hits_def
      edx_item_def edx_owner_def edx_course_def eval_defs)

lemma youtube_video_parsed:
  "yt_item example_lib None youtube_video =
     (Some (PyDate 2024 1 15),
      Inr (Some \<lparr>title = ''Python full course'', url = ''https://youtube.com/watch?v=abc123'',
           image_url = None, duration = Some ''1h 5m'', provider = Some ''Some channel'',
           provider_img = None, difficulty = None, avg_rating = None, count_rating = None,
           skills = None\<rparr>))"
  by (simp add: example_defs yt_item_def yt_assign_def yt_video_def yt_thumbnail_def convert_PT1H5M
      CourseSchema_new_def validate_def required_def defaulted_def
      strip_def isspace_def Let_def)

section \<open>The claims\<close>

text \<open>
  C6. Duration formatting. A Udemy item whose \<^verbatim>\<open>durationInSeconds\<close> is 5400 gets the
  duration \<^verbatim>\<open>1h 30m\<close>; for every integer number of seconds other than 0 the string is the
  integer quotient by 3600, then the integer quotient by 60 of the remainder (nothing is
  rounded). A YouTube video whose ISO duration is \<^verbatim>\<open>PT1H5M\<close> gets \<^verbatim>\<open>1h 5m\<close>, and
  \<^verbatim>\<open>PT45S\<close> converts to \<^verbatim>\<open>45s\<close>; for every token \<^verbatim>\<open>PT#H#M#S\<close>, each component
  optional, the converter writes hours and minutes when the hours are positive, else the
  minutes when they are positive, else the seconds.
\<close>

theorem duration_formatting:
  assumes "udemy_item L st (PyDict item) = Inr (st', c)"
    and "map_of item ''course'' = Some (PyDict cd)"
    and "map_of cd ''durationInSeconds'' = Some (PyInt 5400)"
    and "yt_item L yst (PyDict video) = (yst', Inr (Some v))"
    and "map_of video ''contentDetails'' = Some (PyDict details)"
    and "map_of details ''duration'' = Some (PyStr ''PT1H5M'')"
    and "d \<noteq> 0" and "short h" and "short m" and "short s"
  shows "duration c = Some ''1h 30m''
    \<and> udemy_duration L (PyInt d) =
        Inr (PyStr (str_int (d div 3600) @ ''h '' @ str_int (d mod 3600 div 60) @ ''m''))
    \<and> duration v = Some ''1h 5m''
    \<and> convert_youtube_duration (PyStr ''PT1H5M'') = Inr (PyStr ''1h 5m'')
    \<and> convert_youtube_duration (PyStr ''PT45S'') = Inr (PyStr ''45s'')
    \<and> convert_youtube_duration
         (PyStr (''PT'' @ component h CHR ''H'' @ component m CHR ''M'' @ component s CHR ''S''))
       = Inr (PyStr (format_duration (given h) (given m) (given s)))
    \<and> format_duration (Suc k) j i = str_nat (Suc k) @ ''h '' @ str_nat j @ ''m''
    \<and> format_duration 0 (Suc k) i = str_nat (Suc k) @ ''m''
    \<and> format_duration 0 0 i = str_nat i @ ''s''"
proof -
  have "duration c = Some (str_int (5400 div 3600) @ ''h '' @ str_int (5400 mod 3600 div 60) @ ''m'')"
    using udemy_item_duration[OF assms(1,2,3)] by simp
  then have 1: "duration c = Some ''1h 30m''"
    by (simp add: str_int_def str_nat.simps char_of_eval)
  have 2: "duration v = Some ''1h 5m''"
    using yt_item_duration[OF assms(4,5,6) _ convert_PT1H5M] by simp
  show ?thesis
    using 1 2 udemy_duration_int[OF assms(7)] convert_PT1H5M convert_PT45S
      convert_components[OF assms(8,9,10)]
    by (simp add: format_duration_def)
qed

theorem duration_formatting_witness:
  "udemy_duration example_lib (PyInt 7325) = Inr (PyStr ''2h 2m'')
   \<and> convert_youtube_duration (PyStr ''PT2H3M4S'') = Inr (PyStr ''2h 3m'')
   \<and> convert_youtube_duration (PyStr ''PT3M4S'') = Inr (PyStr ''3m'')"
proof -
  note inst = duration_formatting[where L = example_lib and d = 7325 and k = 0 and j = 0 and i = 0,
      OF udemy_course_parsed[unfolded udemy_course_def udemy_course_on_def] _ _
         youtube_video_parsed[unfolded youtube_video_def]]
  have "udemy_duration example_lib (PyInt 7325) = Inr (PyStr ''2h 2m'')"
    using inst[where h = None and m = None and s = None]
    by (simp add: short_def str_int_def str_nat.simps char_of_eval)
  moreover have "convert_youtube_duration (PyStr ''PT2H3M4S'') = Inr (PyStr ''2h 3m'')"
    using inst[where h = "Some 2" and m = "Some 3" and s = "Some 4"]
    by (simp add: short_def component_def given_def format_duration_def str_nat.simps char_of_eval)
  moreover have "convert_youtube_duration (PyStr ''PT3M4S'') = Inr (PyStr ''3m'')"
    using inst[where h = None and m = "Some 3" and s = "Some 4"]
    by (simp add: short_def component_def given_def format_duration_def str_nat.simps char_of_eval)
  ultimately show ?thesis by simp
qed

text \<open>
  C9. Rating rounding. Whenever a Coursera item carries a number as
  \<^verbatim>\<open>avgProductRating\<close>, or a Udemy item a number as \<^verbatim>\<open>rating.average\<close>, the record made of
  the item holds that number rounded to one decimal place; every average between 4.65
  and 4.75, so 4.666..., is normalized to 4.7.
\<close>

theorem rating_rounding:
  assumes "coursera_elements data = Inr (PyList items)"
    and "parse_coursera_response L data = Inr cs"
    and "udemy_elements udata = Inr (PyList uitems)"
    and "parse_udemy_response L udata = Inr ucs"
  shows "list_all2 (\<lambda>item c. \<forall>i v q. item = PyDict i \<longrightarrow>
             map_of i ''avgProductRating'' = Some v \<longrightarrow>
             num_value v = Some q \<longrightarrow> avg_rating c = Some (round1 q))
           (filter isinstance_dict items) cs
    \<and> list_all2 (\<lambda>item c. \<forall>i cd r v q. item = PyDict i \<longrightarrow>
             map_of i ''course'' = Some (PyDict cd) \<longrightarrow>
             map_of cd ''rating'' = Some (PyDict r) \<longrightarrow> map_of r ''average'' = Some v \<longrightarrow>
             num_value v = Some q \<longrightarrow> avg_rating c = Some (round1 q))
           (filter isinstance_dict uitems) ucs
    \<and> (\<forall>q. 465 / 100 < q \<longrightarrow> q < 475 / 100 \<longrightarrow> round1 q = 47 / 10)
    \<and> round1 (14 / 3) = 47 / 10"
proof -
  have 1: "list_all2 (\<lambda>item c. \<forall>i v q. item = PyDict i \<longrightarrow>
             map_of i ''avgProductRating'' = Some v \<longrightarrow>
             num_value v = Some q \<longrightarrow> avg_rating c = Some (round1 q))
           (filter isinstance_dict items) cs"
    by (rule list_all2_mono[OF parse_coursera_items[OF assms(1,2)]])
       (blast intro: coursera_item_rating)
  have 2: "list_all2 (\<lambda>item c. \<forall>i cd r v q. item = PyDict i \<longrightarrow>
             map_of i ''course'' = Some (PyDict cd) \<longrightarrow>
             map_of cd ''rating'' = Some (PyDict r) \<longrightarrow> map_of r ''average'' = Some v \<longrightarrow>
             num_value v = Some q \<longrightarrow> avg_rating c = Some (round1 q))
           (filter isinstance_dict uitems) ucs"
    by (rule list_all2_mono[OF parse_udemy_items[OF assms(3,4)]])
       (blast intro: udemy_item_rating)
  show ?thesis using 1 2 round1_47 round1_14_3 by blast
qed

theorem rating_rounding_witness:
  "\<exists>c u. parse_coursera_response example_lib (coursera_data [coursera_course]) = Inr [c]
     \<and> avg_rating c = Some (round1 (14 / 3))
     \<and> parse_udemy_response example_lib (udemy_data [udemy_course]) = Inr [u]
     \<and> avg_rating u = Some (round1 (14 / 3))"
proof -
  have e1: "coursera_elements (coursera_data [coursera_course]) = Inr (PyList [coursera_course])"
    by (simp add: coursera_data_def coursera_elements_def)
  have e2: "udemy_elements (udemy_data [udemy_course]) = Inr (PyList [udemy_course])"
    by (simp add: udemy_data_def udemy_elements_def)
  note p1 = coursera_course_parsed
  note p2 = udemy_batch_parsed[of "''2024-01-15''", folded udemy_course_def, simplified]
  from rating_rounding[OF e1 p1 e2 p2] have "round1 (14 / 3) = 47 / 10"
    by blast
  then show ?thesis
    by (simp add: p1 p2)
qed

text \<open>
  C2. Item skip. The parsers of Coursera and Udemy have no handler inside their loop: in
  a batch of two items of which one has no title, the exception of that item leaves the
  parser, and no record is made of the other item either (the claim asks for a sequence
  of length one and no exception).
\<close>

theorem malformed_item_aborts_batch:
  "parse_udemy_response L (udemy_data [udemy_untitled, udemy_course]) = Inl AttributeError
   \<and> parse_coursera_response L (coursera_data [coursera_untitled, coursera_course])
       = Inl ValidationError"
  by (simp add: example_defs eval_defs)

text \<open>
  C3. Non-empty title. A Coursera item whose name is the empty string, and a YouTube video
  whose title is one space, are made into records whose title is empty (the claim asks
  that no such record is included).
\<close>

theorem empty_title_included:
  assumes "HttpUrl L ''https://www.coursera.org/learn/x'' = Some u"
    and "HttpUrl L ''https://youtube.com/watch?v=abc123'' = Some w"
    and "fromisoformat L ''2024-01-15T10:00:00+00:00'' = Some dt"
  shows "parse_coursera_response L (coursera_data [coursera_empty_title]) =
      Inr [\<lparr>title = [], url = u, image_url = None, duration = None, provider = None,
            provider_img = None, difficulty = None, avg_rating = None, count_rating = None,
            skills = None\<rparr>]
    \<and> parse_youtube_response L (youtube_data [youtube_blank_title]) =
      Inr [\<lparr>title = [], url = w, image_url = None, duration = None, provider = None,
            provider_img = None, difficulty = None, avg_rating = None, count_rating = None,
            skills = None\<rparr>]"
proof -
  obtain y m d where dt: "dt = (y, m, d)" by (cases dt) auto
  show ?thesis
    using assms dt
    by (simp add: example_defs eval_defs parse_youtube_response_def yt_item_def yt_assign_def
        yt_video_def yt_thumbnail_def)
qed

theorem empty_title_included_witness:
  "parse_coursera_response example_lib (coursera_data [coursera_empty_title]) =
      Inr [\<lparr>title = [], url = ''https://www.coursera.org/learn/x'', image_url = None,
            duration = None, provider = None, provider_img = None, difficulty = None,
            avg_rating = None, count_rating = None, skills = None\<rparr>]
    \<and> parse_youtube_response example_lib (youtube_data [youtube_blank_title]) =
      Inr [\<lparr>title = [], url = ''https://youtube.com/watch?v=abc123'', image_url = None,
            duration = None, provider = None, provider_img = None, difficulty = None,
            avg_rating = None, count_rating = None, skills = None\<rparr>]"
  using empty_title_included[of example_lib "''https://www.coursera.org/learn/x''"
      "''https://youtube.com/watch?v=abc123''" "(2024, 1, 15)"]
  by (simp add: example_lib_def)

text \<open>
  C7. Coursera mapping. An item whose \<^verbatim>\<open>partners\<close> and \<^verbatim>\<open>partnerLogos\<close> are empty arrays
  raises IndexError at \<^verbatim>\<open>[0]\<close>, and the exception leaves the parser (the claim asks for a
  record without provider). The default \<^verbatim>\<open>[None]\<close> covers only the missing key.
\<close>

theorem empty_partners_raise:
  "parse_coursera_response L (coursera_data [coursera_no_partners]) = Inl IndexError"
  by (simp add: example_defs eval_defs)

text \<open>
  C8. Publication date. The record has no field for a date: the keyword argument
  \<^verbatim>\<open>course_date\<close> that the Udemy and YouTube parsers pass has no effect on what the
  constructor returns, so a Udemy item updated on 2024-01-15 and the same item updated on
  2023-05-05 give the same record (the claim asks that the record holds the date).
\<close>

theorem course_date_dropped:
  "CourseSchema_new L (kw @ [(''course_date'', v)]) = CourseSchema_new L kw
   \<and> parse_udemy_response example_lib (udemy_data [udemy_course_on ''2024-01-15''])
     = parse_udemy_response example_lib (udemy_data [udemy_course_on ''2023-05-05''])
   \<and> parse_udemy_response example_lib (udemy_data [udemy_course_on ''2024-01-15'']) =
       Inr [\<lparr>title = ''Python Basics'',
           url = ''https://www.udemy.com/course/python-basics/'',
           image_url = Some ''https://img-c.udemycdn.com/course/240x135/1.jpg'',
           duration = Some ''1h 30m'', provider = None, provider_img = None,
           difficulty = Some ''all levels'', avg_rating = Some (47 / 10), count_rating = Some 12,
           skills = None\<rparr>]"
  by (simp add: CourseSchema_new_def validate_ignores_course_date udemy_batch_parsed)



text \<open>
  C5. edX retry. For a query that is not blank, \<^verbatim>\<open>fetch_edx_courses\<close> sends at most three
  requests. It sends one when the first reply is neither a timeout nor the status 429;
  when all three replies are, it has sent three, returns \<^verbatim>\<open>None\<close>, and the search is empty.
  After a timeout it pauses 1 second, after the status 429 on attempt \<open>k\<close> it pauses
  \<open>2 ^ k\<close> seconds (1, then 2). When the first reply is the status 429 and the second the
  status 200 with a body, the body of the second reply is returned after two requests and
  the search returns the courses parsed from it. In general, when the replies before
  attempt \<open>k\<close> are transient and attempt \<open>k\<close> is the third or its reply is not transient,
  the requests and pauses are those of \<open>retry_trace W k\<close>, \<open>k + 1\<close> requests are sent, and
  what is returned is made of the reply to attempt \<open>k\<close> alone: its body when its status
  is 200, \<^verbatim>\<open>None\<close> otherwise.
\<close>

theorem edx_retry:
  assumes "strip q \<noteq> []"
  shows "attempts (fst (fetch_edx_courses W q)) \<le> 3
    \<and> (\<not> transient (edx_reply W 0) \<longrightarrow> attempts (fst (fetch_edx_courses W q)) = 1)
    \<and> ((\<forall>k<3. transient (edx_reply W k)) \<longrightarrow>
          attempts (fst (fetch_edx_courses W q)) = 3 \<and> snd (fetch_edx_courses W q) = PyNone
          \<and> snd (get_edx_courses L W q) = Inr [])
    \<and> ((\<forall>k<3. edx_reply W k = TransportTimeout) \<longrightarrow>
          fst (fetch_edx_courses W q) = [Request EdX, Sleep 1, Request EdX, Sleep 1, Request EdX])
    \<and> ((\<forall>k<3. \<exists>b. edx_reply W k = Reply 429 b) \<longrightarrow>
          fst (fetch_edx_courses W q) = [Request EdX, Sleep 1, Request EdX, Sleep 2, Request EdX])
    \<and> (\<forall>b v. edx_reply W 0 = Reply 429 b \<longrightarrow> edx_reply W 1 = Reply 200 (Some v) \<longrightarrow>
          fetch_edx_courses W q = ([Request EdX, Sleep 1, Request EdX], v)
          \<and> attempts (fst (fetch_edx_courses W q)) = 2
          \<and> get_edx_courses L W q =
              ([Request EdX, Sleep 1, Request EdX], Inr (parse_edx_response L v)))
    \<and> (\<forall>k<3. (\<forall>j<k. transient (edx_reply W j)) \<longrightarrow>
          (k = 2 \<or> \<not> transient (edx_reply W k)) \<longrightarrow>
          fetch_edx_courses W q = (retry_trace W k, final_result (edx_reply W k))
          \<and> attempts (fst (fetch_edx_courses W q)) = k + 1
          \<and> get_edx_courses L W q =
              (retry_trace W k, Inr (parse_edx_response L (final_result (edx_reply W k)))))
    \<and> (\<forall>k<3. \<forall>v. (\<forall>j<k. transient (edx_reply W j)) \<longrightarrow>
          edx_reply W k = Reply 200 (Some v) \<longrightarrow>
          fetch_edx_courses W q = (retry_trace W k, v)
          \<and> attempts (fst (fetch_edx_courses W q)) = k + 1
          \<and> get_edx_courses L W q = (retry_trace W k, Inr (parse_edx_response L v)))
    \<and> (transient (edx_reply W 0) \<longrightarrow> 2 \<le> attempts (fst (fetch_edx_courses W q)))"
proof -
  have f: "fetch_edx_courses W q = edx_attempts W 0 []"
    using assms by (simp add: fetch_edx_courses_def)
  have 1: "attempts (fst (fetch_edx_courses W q)) \<le> 3"
    using edx_attempts_bound[of W 0 "[]"] by (simp add: f attempts_def MAX_RETRIES_def)
  have 2: "\<not> transient (edx_reply W 0) \<longrightarrow> attempts (fst (fetch_edx_courses W q)) = 1"
    by (simp add: f edx_first_final)
  have 3: "(\<forall>k<3. transient (edx_reply W k)) \<longrightarrow>
          attempts (fst (fetch_edx_courses W q)) = 3 \<and> snd (fetch_edx_courses W q) = PyNone
          \<and> snd (get_edx_courses L W q) = Inr []"
    using edx_transient_gives_up[of W]
    by (auto simp: f get_edx_courses_eq[OF assms] parse_edx_response_def)
  have 4: "(\<forall>k<3. edx_reply W k = TransportTimeout) \<longrightarrow>
          fst (fetch_edx_courses W q) = [Request EdX, Sleep 1, Request EdX, Sleep 1, Request EdX]"
    using edx_all_timeouts[of W] by (simp add: f)
  have 5: "(\<forall>k<3. \<exists>b. edx_reply W k = Reply 429 b) \<longrightarrow>
          fst (fetch_edx_courses W q) = [Request EdX, Sleep 1, Request EdX, Sleep 2, Request EdX]"
    using edx_all_429[of W] by (simp add: f)
  have 6: "\<forall>b v. edx_reply W 0 = Reply 429 b \<longrightarrow> edx_reply W 1 = Reply 200 (Some v) \<longrightarrow>
          fetch_edx_courses W q = ([Request EdX, Sleep 1, Request EdX], v)
          \<and> attempts (fst (fetch_edx_courses W q)) = 2
          \<and> get_edx_courses L W q =
              ([Request EdX, Sleep 1, Request EdX], Inr (parse_edx_response L v))"
    by (auto simp: f get_edx_courses_eq[OF assms] edx_429_200 attempts_def)
  have 7: "\<forall>k<3. (\<forall>j<k. transient (edx_reply W j)) \<longrightarrow>
          (k = 2 \<or> \<not> transient (edx_reply W k)) \<longrightarrow>
          fetch_edx_courses W q = (retry_trace W k, final_result (edx_reply W k))
          \<and> attempts (fst (fetch_edx_courses W q)) = k + 1
          \<and> get_edx_courses L W q =
              (retry_trace W k, Inr (parse_edx_response L (final_result (edx_reply W k))))"
  proof (intro allI impI)
    fix k
    assume k: "k < 3" "\<forall>j<k. transient (edx_reply W j)" "k = 2 \<or> \<not> transient (edx_reply W k)"
    note s = edx_attempts_spec[OF k]
    show "fetch_edx_courses W q = (retry_trace W k, final_result (edx_reply W k))
          \<and> attempts (fst (fetch_edx_courses W q)) = k + 1
          \<and> get_edx_courses L W q =
              (retry_trace W k, Inr (parse_edx_response L (final_result (edx_reply W k))))"
      by (simp add: f s get_edx_courses_eq[OF assms] attempts_retry_trace)
  qed
  have 8: "\<forall>k<3. \<forall>v. (\<forall>j<k. transient (edx_reply W j)) \<longrightarrow>
          edx_reply W k = Reply 200 (Some v) \<longrightarrow>
          fetch_edx_courses W q = (retry_trace W k, v)
          \<and> attempts (fst (fetch_edx_courses W q)) = k + 1
          \<and> get_edx_courses L W q = (retry_trace W k, Inr (parse_edx_response L v))"
  proof (intro allI impI)
    fix k v
    assume k: "k < 3" "\<forall>j<k. transient (edx_reply W j)" and r: "edx_reply W k = Reply 200 (Some v)"
    from r have "k = 2 \<or> \<not> transient (edx_reply W k)" by (simp add: transient_def)
    from 7 k this have "fetch_edx_courses W q = (retry_trace W k, final_result (edx_reply W k))
          \<and> attempts (fst (fetch_edx_courses W q)) = k + 1
          \<and> get_edx_courses L W q =
              (retry_trace W k, Inr (parse_edx_response L (final_result (edx_reply W k))))"
      by blast
    then show "fetch_edx_courses W q = (retry_trace W k, v)
          \<and> attempts (fst (fetch_edx_courses W q)) = k + 1
          \<and> get_edx_courses L W q = (retry_trace W k, Inr (parse_edx_response L v))"
      by (simp add: r final_result_def attempts_retry_trace)
  qed
  have 9: "transient (edx_reply W 0) \<longrightarrow> 2 \<le> attempts (fst (fetch_edx_courses W q))"
  proof
    assume t: "transient (edx_reply W 0)"
    show "2 \<le> attempts (fst (fetch_edx_courses W q))"
    proof (cases "transient (edx_reply W (Suc 0))")
      case True
      with t show ?thesis by (simp add: f edx_attempts_2 attempts_retry_trace)
    next
      case False
      with t show ?thesis by (simp add: f edx_attempts_1 attempts_retry_trace)
    qed
  qed
  from 1 2 3 4 5 6 7 8 9 show ?thesis by (intro conjI)
qed

theorem edx_retry_witness:
  "get_edx_courses example_lib (example_world 1) '' python '' =
     ([Request EdX, Sleep 1, Request EdX],
      Inr [\<lparr>title = ''CS50: Introduction to Computer Science'',
       url = ''https://www.edx.org/learn/computer-science/harvard-cs50'',
       image_url = Some ''https://prod-discovery.edx-cdn.org/cs50.png'',
       duration = Some ''12 weeks'', provider = Some ''Harvard University'',
       provider_img = Some ''https://prod-discovery.edx-cdn.org/harvard.png'',
       difficulty = Some ''Introductory'', avg_rating = None, count_rating = None,
       skills = Some [''C'', ''Algorithms'']\<rparr>])
   \<and> get_edx_courses example_lib (example_world 2) '' python '' =
     ([Request EdX, Sleep 1, Request EdX, Sleep 2, Request EdX],
      Inr [\<lparr>title = ''CS50: Introduction to Computer Science'',
       url = ''https://www.edx.org/learn/computer-science/harvard-cs50'',
       image_url = Some ''https://prod-discovery.edx-cdn.org/cs50.png'',
       duration = Some ''12 weeks'', provider = Some ''Harvard University'',
       provider_img = Some ''https://prod-discovery.edx-cdn.org/harvard.png'',
       difficulty = Some ''Introductory'', avg_rating = None, count_rating = None,
       skills = Some [''C'', ''Algorithms'']\<rparr>])"
proof -
  have h: "strip '' python '' \<noteq> []" by (simp add: strip_python)
  have r: "edx_reply (example_world 1) 0 = Reply 429 None"
    "edx_reply (example_world 1) 1 = Reply 200 (Some (edx_data [edx_hit]))"
    by (simp_all add: example_world_def)
  from edx_retry[OF h, of "example_world 1" example_lib] r
  have a: "get_edx_courses example_lib (example_world 1) '' python '' =
     ([Request EdX, Sleep 1, Request EdX], Inr (parse_edx_response example_lib (edx_data [edx_hit])))"
    by blast
  have t: "\<forall>j<2. transient (edx_reply (example_world 2) j)"
    and r2: "edx_reply (example_world 2) 2 = Reply 200 (Some (edx_data [edx_hit]))"
    by (simp_all add: example_world_def transient_def)
  have k: "(2::nat) < 3" by simp
  from edx_retry[OF h, of "example_world 2" example_lib] k t r2
  have "get_edx_courses example_lib (example_world 2) '' python '' =
     (retry_trace (example_world 2) 2, Inr (parse_edx_response example_lib (edx_data [edx_hit])))"
    by blast
  then have b: "get_edx_courses example_lib (example_world 2) '' python '' =
     ([Request EdX, Sleep 1, Request EdX, Sleep 2, Request EdX],
      Inr (parse_edx_response example_lib (edx_data [edx_hit])))"
    by (simp add: retry_trace_def pause_def example_world_def numeral_2_eq_2)
  from a b show ?thesis by (simp add: edx_hit_parsed)
qed

text \<open>
  C1. For every query that is not blank, \<^verbatim>\<open>search_courses\<close> returns: no exception
  leaves it. The dictionary it returns under \<^verbatim>\<open>"results"\<close> has exactly the keys coursera,
  edx, udemy and youtube, each with a list of courses and a redirect URL that is not
  empty. A platform whose adapter raised has an empty list of courses (the adapters of
  edX and YouTube never raise), and so has a platform whose upstream call failed: a
  transport failure, a 4xx or 5xx status or a body that is not JSON for Coursera and
  Udemy, the same for all three attempts of edX, an error of either call or a missing key
  for YouTube.
\<close>

theorem search_courses_complete:
  assumes "strip q \<noteq> []"
  shows "\<exists>cc ec uc yc cu eu uu yu.
      snd (search_courses L W q lang n) =
        Inr \<lparr>results = [(''coursera'', \<lparr>courses = cc, redirect_url = cu\<rparr>),
                        (''edx'', \<lparr>courses = ec, redirect_url = eu\<rparr>),
                        (''udemy'', \<lparr>courses = uc, redirect_url = uu\<rparr>),
                        (''youtube'', \<lparr>courses = yc, redirect_url = yu\<rparr>)]\<rparr>
    \<and> cu \<noteq> [] \<and> eu \<noteq> [] \<and> uu \<noteq> [] \<and> yu \<noteq> []
    \<and> ((\<exists>e. snd (get_coursera_courses L W (strip q) n) = Inl e) \<longrightarrow> cc = [])
    \<and> ((\<exists>e. snd (get_udemy_courses L W (strip q) n) = Inl e) \<longrightarrow> uc = [])
    \<and> (\<exists>cs. snd (get_edx_courses L W (strip q)) = Inr cs)
    \<and> (\<exists>cs. snd (get_youtube_courses L W (strip q)) = Inr cs)
    \<and> (failed (coursera_reply W) \<longrightarrow> cc = [])
    \<and> (failed (udemy_reply W) \<longrightarrow> uc = [])
    \<and> ((\<forall>k<3. failed (edx_reply W k)) \<longrightarrow> ec = [])
    \<and> (youtube_search W = YtError \<or> \<not> youtube_api_key W
          \<or> (\<forall>ids. youtube_videos W ids = YtError) \<longrightarrow> yc = [])"
proof -
  have s: "strip (strip q) \<noteq> []" using assms by (simp add: strip_strip)
  have c: "failed (coursera_reply W) \<longrightarrow> or_empty (snd (get_coursera_courses L W (strip q) n)) = []"
    using coursera_failed[of W L "strip q" n] by (auto simp: or_empty_def)
  have u: "failed (udemy_reply W) \<longrightarrow> or_empty (snd (get_udemy_courses L W (strip q) n)) = []"
    using udemy_failed[of W L "strip q" n] by (auto simp: or_empty_def)
  have e: "(\<forall>k<3. failed (edx_reply W k)) \<longrightarrow> or_empty (snd (get_edx_courses L W (strip q))) = []"
    using edx_failed[of W]
    by (auto simp: get_edx_courses_eq[OF s] or_empty_def parse_edx_response_def)
  have y: "youtube_search W = YtError \<or> \<not> youtube_api_key W
          \<or> (\<forall>ids. youtube_videos W ids = YtError)
          \<longrightarrow> or_empty (snd (get_youtube_courses L W (strip q))) = []"
    using youtube_failed[of W L "strip q"] by (auto simp: or_empty_def)
  have e2: "\<exists>cs. snd (get_edx_courses L W (strip q)) = Inr cs"
    by (simp add: get_edx_courses_eq[OF s])
  show ?thesis
    using assms c u e y e2 youtube_never_raises[of L W "strip q"]
    by (auto simp: search_courses_def Let_def or_empty_def)
qed

theorem search_courses_complete_witness:
  "\<exists>cc ec yc cu eu uu yu.
      snd (search_courses example_lib (example_world 1) '' python '' ENGLISH 6) =
        Inr \<lparr>results = [(''coursera'', \<lparr>courses = cc, redirect_url = cu\<rparr>),
                        (''edx'', \<lparr>courses = ec, redirect_url = eu\<rparr>),
                        (''udemy'', \<lparr>courses = [], redirect_url = uu\<rparr>),
                        (''youtube'', \<lparr>courses = yc, redirect_url = yu\<rparr>)]\<rparr>
      \<and> uu \<noteq> []"
proof -
  have h: "strip '' python '' \<noteq> []" by (simp add: strip_python)
  have f: "failed (udemy_reply (example_world 1))"
    by (simp add: example_world_def failed_def)
  from search_courses_complete[OF h, of example_lib "example_world 1" ENGLISH 6] f
  show ?thesis by blast
qed

text \<open>
  C4. Concurrency. The router awaits the four adapters one after the other, so the
  requests and pauses of a search are those of Coursera, then of edX, then of Udemy,
  then of YouTube. When edX answers 429 twice, the request to Udemy is sent after both
  pauses of edX (the claim says that an adapter that retries never delays another).
\<close>

theorem adapters_run_in_sequence:
  "fst (search_courses L (example_world 2) ''python'' lang 6) =
     [Request Coursera,
      Request EdX, Sleep 1, Request EdX, Sleep 2, Request EdX,
      Request Udemy,
      Request YouTube, Request YouTube]"
  by (simp add: search_courses_def Let_def strip_def isspace_def example_world_def
      get_coursera_courses_def fetch_coursera_courses_def
      get_edx_courses_def fetch_edx_courses_def edx_attempts.simps MAX_RETRIES_def
      get_udemy_courses_def fetch_udemy_courses_def
      get_youtube_courses_def fetch_youtube_courses_def fetch_detailed_video_info_def
      youtube_data_def split: prod.splits)

end
